theory Spec2Isabelle
  imports Complex_Main
begin

section \<open>Exceptions and results\<close>

text \<open>
  The Python exceptions the modelled code can raise. \<open>NameError\<close> stands for
  \<open>UnboundLocalError\<close> (its subclass), \<open>HardwareError\<close> for whatever a vendor driver call
  raises (\<open>OSError\<close> from ctypes, a VISA I/O error).

  Every method mutates its object in place and the mutation survives a raise, so a
  method is modelled as a function from the state to an outcome (\<open>Inl\<close> the exception, \<open>Inr\<close> the returned
  value) paired with the state it leaves behind.
\<close>

datatype error = ValueError | RuntimeError | KeyError | NameError | IndexError
  | ZeroDivisionError | HardwareError

type_synonym ('s, 'a) proc = "'s \<Rightarrow> (error + 'a) \<times> 's"

definition and_then :: "('s, 'a) proc \<Rightarrow> ('a \<Rightarrow> ('s, 'b) proc) \<Rightarrow> ('s, 'b) proc" where
  "and_then m f s = (case m s of (Inl e, s') \<Rightarrow> (Inl e, s') | (Inr a, s') \<Rightarrow> f a s')"

definition returns :: "'a \<Rightarrow> ('s, 'a) proc" where
  "returns a s = (Inr a, s)"

definition raises :: "error \<Rightarrow> ('s, 'a) proc" where
  "raises e s = (Inl e, s)"

section \<open>flywheel.py: the filter-wheel position tracker\<close>

text \<open>
  \<open>FlywheelController\<close>: \<open>slot_count\<close> and \<open>slot_mapping\<close> come from the setup
  configuration, \<open>current_slot\<close> is the software-assumed position (1 after \<open>__init__\<close>).
  The function generator \<open>gen\<close> is hardware; what the model keeps of it is \<open>pulses\<close>, the
  number of triggers sent to it so far. The wheel has no sensor: its physical position is
  the position at start-up advanced cyclically by \<open>pulses\<close>.
\<close>

record flywheel =
  slot_count :: int
  slot_mapping :: "(string \<times> int) list"
  current_slot :: int
  pulses :: nat

definition flywheel_init :: "int \<Rightarrow> (string \<times> int) list \<Rightarrow> flywheel" where
  "flywheel_init n m = \<lparr>slot_count = n, slot_mapping = m, current_slot = 1, pulses = 0\<rparr>"

text \<open>\<open>_pulse_once\<close>: trigger the generator, then advance the tracked slot cyclically.\<close>

definition pulse_once :: "flywheel \<Rightarrow> flywheel" where
  "pulse_once fw =
     (let fw1 = fw\<lparr>pulses := Suc (pulses fw)\<rparr>;
          fw2 = fw1\<lparr>current_slot := current_slot fw1 + 1\<rparr>
      in if current_slot fw2 > slot_count fw2 then fw2\<lparr>current_slot := 1\<rparr> else fw2)"

text \<open>
  A broken tracker: the generator is triggered, the tracked slot is not updated (the body
  of \<open>_pulse_once\<close> without its last three lines).
\<close>

definition pulse_stuck :: "flywheel \<Rightarrow> flywheel" where
  "pulse_stuck fw = fw\<lparr>pulses := Suc (pulses fw)\<rparr>"

text \<open>
  The \<open>while\<close> loop of \<open>go_to_slot\<close>. \<open>self._pulse_once\<close> is looked up on the object at
  each call, so the loop takes the pulse method as a parameter. It returns the wheel and
  the final value of the local \<open>attempts\<close>.
\<close>

function go_loop :: "(flywheel \<Rightarrow> flywheel) \<Rightarrow> int \<Rightarrow> int \<Rightarrow> int \<Rightarrow> flywheel \<Rightarrow> flywheel \<times> int" where
  "go_loop pulse target_slot max_attempts attempts fw =
     (if current_slot fw \<noteq> target_slot \<and> attempts < max_attempts
      then go_loop pulse target_slot max_attempts (attempts + 1) (pulse fw)
      else (fw, attempts))"
  by pat_completeness auto
termination
  by (relation "measure (\<lambda>(pulse, target_slot, max_attempts, attempts, fw). nat (max_attempts - attempts))") auto

declare go_loop.simps [simp del]

definition go_to_slot_with :: "(flywheel \<Rightarrow> flywheel) \<Rightarrow> int \<Rightarrow> (flywheel, int) proc" where
  "go_to_slot_with pulse target_slot fw =
     (if \<not> (1 \<le> target_slot \<and> target_slot \<le> slot_count fw) then (Inl ValueError, fw)
      else if target_slot = current_slot fw then (Inr (current_slot fw), fw)
      else
        let fw' = fst (go_loop pulse target_slot (slot_count fw) 0 fw)
        in if current_slot fw' \<noteq> target_slot then (Inl RuntimeError, fw')
           else (Inr (current_slot fw'), fw'))"

definition go_to_slot :: "int \<Rightarrow> (flywheel, int) proc" where
  "go_to_slot = go_to_slot_with pulse_once"

text \<open>\<open>step\<close>: \<open>n % slot_count\<close> pulses (Python's \<open>%\<close> raises on a zero divisor).\<close>

definition step :: "int \<Rightarrow> (flywheel, unit) proc" where
  "step n fw =
     (if slot_count fw = 0 then (Inl ZeroDivisionError, fw)
      else (Inr (), (pulse_once ^^ nat (n mod slot_count fw)) fw))"

definition reset_slot :: "int \<Rightarrow> (flywheel, unit) proc" where
  "reset_slot known_slot fw =
     (if \<not> (1 \<le> known_slot \<and> known_slot \<le> slot_count fw) then (Inl ValueError, fw)
      else (Inr (), fw\<lparr>current_slot := known_slot\<rparr>))"

definition get_current_slot :: "flywheel \<Rightarrow> int" where
  "get_current_slot fw = current_slot fw"

text \<open>
  The number of pulses that take the tracked position \<open>c\<close> to the slot \<open>t\<close> on a wheel of
  \<open>n\<close> slots.
\<close>

definition pulses_needed :: "int \<Rightarrow> int \<Rightarrow> int \<Rightarrow> int" where
  "pulses_needed n c t = (if c \<le> t then t - c else if c \<le> n then n - c + t else t)"

section \<open>pm.py: the power meter\<close>

text \<open>
  \<open>PM100D.get_power\<close> asks the driver for one reading and returns it; the driver's status
  code is not looked at, so the call never raises. \<open>readings\<close> is what the instrument
  answers to its successive calls, \<open>reads\<close> counts the calls made. The type of a reading
  is a parameter: mirror discovery compares readings as real numbers, the degradation
  study computes with them in its floating-point arithmetic.
\<close>

record 'p power_meter =
  readings :: "nat \<Rightarrow> 'p"
  reads :: nat

definition get_power :: "'p power_meter \<Rightarrow> 'p \<times> 'p power_meter" where
  "get_power pm = (readings pm (reads pm), pm\<lparr>reads := Suc (reads pm)\<rparr>)"

section \<open>utils.py: mirror-slot discovery\<close>

text \<open>
  The \<open>for _ in range(fw.slot_count)\<close> loop of \<open>configure_flywheel_with_powermeter\<close>: read
  the tracked slot, read the power, record the pair, pulse once.
\<close>

fun scan_slots :: "nat \<Rightarrow> (int \<times> real) list \<Rightarrow> flywheel \<Rightarrow> real power_meter
    \<Rightarrow> (int \<times> real) list \<times> flywheel \<times> real power_meter" where
  "scan_slots 0 measurements fw pm = (measurements, fw, pm)"
| "scan_slots (Suc k) measurements fw pm =
     (let slot = get_current_slot fw;
          (power, pm') = get_power pm
      in scan_slots k (measurements @ [(slot, power)]) (pulse_once fw) pm')"

text \<open>
  Python's \<open>max(xs, key=f)\<close>: the first element whose key no later element exceeds
  (the running best is replaced only by a strictly greater key); \<open>ValueError\<close> on an
  empty sequence.
\<close>

fun py_max_from :: "('a \<Rightarrow> real) \<Rightarrow> 'a \<Rightarrow> 'a list \<Rightarrow> 'a" where
  "py_max_from key best [] = best"
| "py_max_from key best (x # xs) = py_max_from key (if key x > key best then x else best) xs"

definition py_max :: "('a \<Rightarrow> real) \<Rightarrow> 'a list \<Rightarrow> error + 'a" where
  "py_max key xs = (case xs of [] \<Rightarrow> Inl ValueError | x # rest \<Rightarrow> Inr (py_max_from key x rest))"

definition configure_flywheel_with_powermeter :: "(flywheel \<times> real power_meter, unit) proc" where
  "configure_flywheel_with_powermeter = (\<lambda>(fw, pm).
     (let (measurements, fw1, pm1) = scan_slots (nat (slot_count fw)) [] fw pm
      in case py_max snd measurements of
           Inl e \<Rightarrow> (Inl e, (fw1, pm1))
         | Inr (best_slot, best_power) \<Rightarrow>
             (case go_to_slot best_slot fw1 of
                (Inl e, fw2) \<Rightarrow> (Inl e, (fw2, pm1))
              | (Inr _, fw2) \<Rightarrow>
                  (case reset_slot 1 fw2 of
                     (Inl e, fw3) \<Rightarrow> (Inl e, (fw3, pm1))
                   | (Inr _, fw3) \<Rightarrow> (Inr (), (fw3, pm1))))))"

text \<open>
  Where the wheel physically stands, counted in slots from where it stood when the
  controller was created: every trigger advances it by one slot, cyclically.
\<close>

definition physical_offset :: "flywheel \<Rightarrow> nat" where
  "physical_offset fw = pulses fw mod nat (slot_count fw)"

section \<open>numpy on one-dimensional arrays of real numbers\<close>



text \<open>\<open>a[mask]\<close> with a boolean mask: \<open>IndexError\<close> unless the lengths agree.\<close>

definition np_select :: "bool list \<Rightarrow> real list \<Rightarrow> error + real list" where
  "np_select keep xs =
     (if length keep = length xs then Inr (map snd (filter fst (zip keep xs)))
      else Inl IndexError)"


section \<open>spectrometer.py\<close>

text \<open>
  \<open>CCS_Spectrometer\<close>. Every scan fills two arrays of \<open>num_pixels\<close> entries (3648 in the
  source; the model takes the number from the device, so that a short array can be
  written down). The wavelength array does not depend on the scan: in simulation it is
  \<open>np.linspace(200, 1100, 3648)\<close>, on hardware it is calibration data set 0 of the device
  (\<open>tlccs_getWavelengthData(handle, 0, ...)\<close>). \<open>wavelength_axis i\<close> is its \<open>i\<close>-th entry,
  \<open>scan_data k i\<close> the intensity of pixel \<open>i\<close> in the \<open>k\<close>-th scan (from the driver, or the
  simulated line with its random noise), \<open>scans\<close> the number of scans made. The driver's
  status codes are not looked at, so a scan never raises. The type \<open>'f\<close> of the samples
  is a parameter.
\<close>

record 'f spectrometer =
  num_pixels :: nat
  wavelength_axis :: "nat \<Rightarrow> 'f"
  scan_data :: "nat \<Rightarrow> nat \<Rightarrow> 'f"
  scans :: nat
  sp_background :: "'f list option"
  mask_range :: "'f option \<times> 'f option"

definition get_raw_spectrum :: "'f spectrometer \<Rightarrow> ('f list \<times> 'f list) \<times> 'f spectrometer" where
  "get_raw_spectrum sp =
     ((map (wavelength_axis sp) [0..<num_pixels sp],
       map (scan_data sp (scans sp)) [0..<num_pixels sp]),
      sp\<lparr>scans := Suc (scans sp)\<rparr>)"

text \<open>Python's truth value of a bound of the mask range: \<open>None\<close> and \<open>0\<close> are false.\<close>

definition truthy :: "real option \<Rightarrow> bool" where
  "truthy b = (case b of None \<Rightarrow> False | Some v \<Rightarrow> v \<noteq> 0)"

definition in_mask :: "real option \<times> real option \<Rightarrow> real list \<Rightarrow> bool list" where
  "in_mask r wl = map (\<lambda>w. the (fst r) \<le> w \<and> w \<le> the (snd r)) wl"


text \<open>
  \<open>capture_background\<close>: one scan for the intensities and, when a mask range is set, a
  second scan for the wavelengths that decide the mask.
\<close>

definition capture_background :: "(real spectrometer, real list) proc" where
  "capture_background sp =
     (let ((_, bg), sp1) = get_raw_spectrum sp;
          r = mask_range sp1
      in if truthy (fst r) \<and> truthy (snd r)
         then (let ((wl, _), sp2) = get_raw_spectrum sp1
               in case np_select (in_mask r wl) bg of
                    Inl e \<Rightarrow> (Inl e, sp2)
                  | Inr bg' \<Rightarrow> (Inr bg', sp2\<lparr>sp_background := Some bg'\<rparr>))
         else (Inr bg, sp1\<lparr>sp_background := Some bg\<rparr>))"

section \<open>Floating-point arithmetic and numpy arrays in experiment.py\<close>

text \<open>
  The spectra, the background and the reference power of the degradation study are IEEE
  doubles: a quotient is rounded, may overflow to infinity and may be NaN, and that
  decides both what the study writes to disk and whether Matplotlib accepts the limits of
  its live plot. The study is therefore modelled over an arbitrary arithmetic: a type
  \<open>'f\<close> of floats together with the operations the code applies to them. \<open>fadd\<close>,
  \<open>fsub\<close> and \<open>fdiv\<close> are addition, subtraction and division; \<open>fless a b\<close> is
  \<open>a < b\<close>; \<open>of_count\<close> converts a non-negative integer (the literal \<open>0\<close>, the literal
  \<open>1.0\<close>, a number of rows); \<open>sum_start\<close> is the zero from which numpy starts a sum;
  \<open>times_1_2 x\<close> is \<open>x * 1.2\<close>; \<open>isnan\<close> and \<open>isfinite\<close>
  are the tests that numpy makes inside \<open>argmax\<close>, \<open>max\<close> and \<open>min\<close> and that Matplotlib
  makes on an axis limit. Nothing is assumed about the operations, so what is proved of
  the study holds for the machine's doubles as for exact arithmetic.
\<close>

record 'f arith =
  fadd :: "'f \<Rightarrow> 'f \<Rightarrow> 'f"
  fsub :: "'f \<Rightarrow> 'f \<Rightarrow> 'f"
  fdiv :: "'f \<Rightarrow> 'f \<Rightarrow> 'f"
  fless :: "'f \<Rightarrow> 'f \<Rightarrow> bool"
  of_count :: "nat \<Rightarrow> 'f"
  sum_start :: 'f
  times_1_2 :: "'f \<Rightarrow> 'f"
  isnan :: "'f \<Rightarrow> bool"
  isfinite :: "'f \<Rightarrow> bool"

text \<open>
  What the code holds in \<open>inten\<close> and \<open>background\<close>: a one-dimensional array, or the
  zero-dimensional value that \<open>np.mean\<close> gives for an empty list of rows.
\<close>

datatype 'f ndarray = Scalar 'f | Vec "'f list"

text \<open>
  \<open>np.mean(rows, axis=0)\<close> for a list of arrays: the rows are added one after the other
  to the start value of the sum, and the sum is divided by their number; \<open>ValueError\<close>
  when the rows differ in length. For no rows at all the sum is its start value and the
  count \<open>0\<close>: numpy warns, does not raise, and returns their quotient (NaN).
\<close>

definition nd_mean_axis0 :: "'f arith \<Rightarrow> 'f list list \<Rightarrow> error + 'f ndarray" where
  "nd_mean_axis0 fp rows =
     (case rows of
        [] \<Rightarrow> Inr (Scalar (fdiv fp (sum_start fp) (of_count fp 0)))
      | r # rs \<Rightarrow>
          if list_all (\<lambda>x. length x = length r) rs
          then Inr (Vec (map (\<lambda>i. fdiv fp (fold (\<lambda>row acc. fadd fp acc (row ! i)) rows (sum_start fp))
                                        (of_count fp (length rows)))
                            [0..<length r]))
          else Inl ValueError)"

text \<open>\<open>a / p\<close> for a Python float \<open>p\<close>.\<close>

definition nd_div :: "'f arith \<Rightarrow> 'f ndarray \<Rightarrow> 'f \<Rightarrow> 'f ndarray" where
  "nd_div fp a p =
     (case a of Scalar x \<Rightarrow> Scalar (fdiv fp x p) | Vec xs \<Rightarrow> Vec (map (\<lambda>x. fdiv fp x p) xs))"

text \<open>
  \<open>a - b\<close>: a zero-dimensional operand and an array of length one are broadcast; any other
  mismatch of lengths raises \<open>ValueError\<close>.
\<close>

definition nd_sub :: "'f arith \<Rightarrow> 'f ndarray \<Rightarrow> 'f ndarray \<Rightarrow> error + 'f ndarray" where
  "nd_sub fp a b =
     (case (a, b) of
        (Scalar x, Scalar y) \<Rightarrow> Inr (Scalar (fsub fp x y))
      | (Scalar x, Vec ys) \<Rightarrow> Inr (Vec (map (\<lambda>y. fsub fp x y) ys))
      | (Vec xs, Scalar y) \<Rightarrow> Inr (Vec (map (\<lambda>x. fsub fp x y) xs))
      | (Vec xs, Vec ys) \<Rightarrow>
          if length xs = length ys then Inr (Vec (map2 (fsub fp) xs ys))
          else if length ys = 1 then Inr (Vec (map (\<lambda>x. fsub fp x (hd ys)) xs))
          else if length xs = 1 then Inr (Vec (map (\<lambda>y. fsub fp (hd xs) y) ys))
          else Inl ValueError)"

text \<open>
  \<open>np.clip(a, 0, None)\<close>: an element below zero becomes zero, every other element (NaN
  too) is kept.
\<close>

definition clip_at_zero :: "'f arith \<Rightarrow> 'f \<Rightarrow> 'f" where
  "clip_at_zero fp x = (if fless fp x (of_count fp 0) then of_count fp 0 else x)"

definition nd_clip :: "'f arith \<Rightarrow> 'f ndarray \<Rightarrow> 'f ndarray" where
  "nd_clip fp a =
     (case a of Scalar x \<Rightarrow> Scalar (clip_at_zero fp x) | Vec xs \<Rightarrow> Vec (map (clip_at_zero fp) xs))"

text \<open>
  \<open>np.argmax\<close>: the first index of the maximum, or of the first NaN if there is one;
  \<open>0\<close> for a zero-dimensional value, \<open>ValueError\<close> for an empty array.
\<close>

fun argmax_from :: "'f arith \<Rightarrow> nat \<Rightarrow> 'f \<Rightarrow> nat \<Rightarrow> 'f list \<Rightarrow> nat" where
  "argmax_from fp best_i best i [] = best_i"
| "argmax_from fp best_i best i (x # xs) =
     (if isnan fp best then best_i
      else if fless fp best x \<or> isnan fp x then argmax_from fp i x (Suc i) xs
      else argmax_from fp best_i best (Suc i) xs)"

definition nd_argmax :: "'f arith \<Rightarrow> 'f ndarray \<Rightarrow> error + nat" where
  "nd_argmax fp a =
     (case a of
        Scalar x \<Rightarrow> Inr 0
      | Vec [] \<Rightarrow> Inl ValueError
      | Vec (x # rest) \<Rightarrow> Inr (argmax_from fp 0 x 1 rest))"

text \<open>
  \<open>np.max\<close> and \<open>np.min\<close> (also as the methods \<open>a.max()\<close>, \<open>a.min()\<close>): NaN if the
  array holds one, \<open>ValueError\<close> for an empty array.
\<close>

definition fmaximum :: "'f arith \<Rightarrow> 'f \<Rightarrow> 'f \<Rightarrow> 'f" where
  "fmaximum fp a b = (if isnan fp a then a else if isnan fp b then b else if fless fp a b then b else a)"

definition fminimum :: "'f arith \<Rightarrow> 'f \<Rightarrow> 'f \<Rightarrow> 'f" where
  "fminimum fp a b = (if isnan fp a then a else if isnan fp b then b else if fless fp b a then b else a)"

definition nd_max :: "'f arith \<Rightarrow> 'f ndarray \<Rightarrow> error + 'f" where
  "nd_max fp a =
     (case a of
        Scalar x \<Rightarrow> Inr x
      | Vec [] \<Rightarrow> Inl ValueError
      | Vec (x # rest) \<Rightarrow> Inr (fold (\<lambda>y acc. fmaximum fp acc y) rest x))"

definition nd_min :: "'f arith \<Rightarrow> 'f ndarray \<Rightarrow> error + 'f" where
  "nd_min fp a =
     (case a of
        Scalar x \<Rightarrow> Inr x
      | Vec [] \<Rightarrow> Inl ValueError
      | Vec (x # rest) \<Rightarrow> Inr (fold (\<lambda>y acc. fminimum fp acc y) rest x))"

section \<open>experiment.py: the acquisition pipeline and the degradation study\<close>

text \<open>
  The keys of \<open>config_user.json\<close> that the modelled code reads. A key that is absent is
  \<open>None\<close>: \<open>user_cfg.get(k, d)\<close> then gives the default \<open>d\<close>, \<open>user_cfg[k]\<close> raises
  \<open>KeyError\<close>.
\<close>

record config =
  cfg_experiment_type :: "string option"
  cfg_background_correction :: "bool option"
  cfg_repeated_bg :: "bool option"
  cfg_normalization :: "string option"
  cfg_flywheel_mode :: "string option"
  cfg_degradation_duration_s :: "real option"
  cfg_sampling_interval_s :: "real option"
  cfg_integration_time_ms :: "real option"
  cfg_auto_configure_flywheel :: "bool option"

definition get_or :: "'a \<Rightarrow> 'a option \<Rightarrow> 'a" where
  "get_or d v = (case v of None \<Rightarrow> d | Some x \<Rightarrow> x)"

text \<open>
  \<open>PLExperiment\<close> after \<open>__init__\<close>: the configuration, the three instruments, the slot
  names (\<open>self.slots\<close>, the wheel's \<open>slot_mapping\<close>), the averaging settings, and (for the
  model) the spectra written to disk so far, oldest first, each as the two columns that
  \<open>save_csv_spectrum\<close> wrote.
\<close>

record 'f pl_experiment =
  exp_user_cfg :: config
  exp_spec :: "'f spectrometer"
  exp_pm :: "'f power_meter"
  exp_fw :: flywheel
  exp_slots :: "(string \<times> int) list"
  exp_avg_count :: int
  exp_enable_averaging :: bool
  saved_csv :: "('f list \<times> 'f list) list"

definition on_fw :: "(flywheel, 'a) proc \<Rightarrow> ('f pl_experiment, 'a) proc" where
  "on_fw m e = (case m (exp_fw e) of (r, fw') \<Rightarrow> (r, e\<lparr>exp_fw := fw'\<rparr>))"

definition read_power :: "('f pl_experiment, 'f) proc" where
  "read_power e = (let (p, pm') = get_power (exp_pm e) in (Inr p, e\<lparr>exp_pm := pm'\<rparr>))"

text \<open>\<open>self.spec.get_raw_spectrum()\<close>, the capture without averaging.\<close>

definition raw_spectrum :: "('f pl_experiment, 'f list \<times> 'f ndarray) proc" where
  "raw_spectrum e =
     (let ((wl, inten), sp') = get_raw_spectrum (exp_spec e)
      in (Inr (wl, Vec inten), e\<lparr>exp_spec := sp'\<rparr>))"

text \<open>\<open>self.slots[name]\<close>.\<close>

definition slot_of :: "string \<Rightarrow> ('f pl_experiment, int) proc" where
  "slot_of name e = (case map_of (exp_slots e) name of None \<Rightarrow> (Inl KeyError, e) | Some s \<Rightarrow> (Inr s, e))"

text \<open>\<open>[self.spec.get_raw_spectrum()[1] for _ in range(k)]\<close>.\<close>

fun capture_stack :: "nat \<Rightarrow> 'f spectrometer \<Rightarrow> 'f list list \<times> 'f spectrometer" where
  "capture_stack 0 sp = ([], sp)"
| "capture_stack (Suc k) sp =
     (let ((wl, inten), sp1) = get_raw_spectrum sp;
          (rest, sp2) = capture_stack k sp1
      in (inten # rest, sp2))"

text \<open>
  \<open>average_spectrum\<close>: \<open>avg_count\<close> scans for the intensities, their mean, and then one
  more scan, of which only the wavelengths are kept.
\<close>

definition average_spectrum :: "'f arith \<Rightarrow> ('f pl_experiment, 'f list \<times> 'f ndarray) proc" where
  "average_spectrum fp e =
     (let (spectra, sp1) = capture_stack (nat (exp_avg_count e)) (exp_spec e);
          e1 = e\<lparr>exp_spec := sp1\<rparr>
      in case nd_mean_axis0 fp spectra of
           Inl err \<Rightarrow> (Inl err, e1)
         | Inr avg_inten \<Rightarrow>
             (let ((wl, _), sp2) = get_raw_spectrum sp1
              in (Inr (wl, avg_inten), e1\<lparr>exp_spec := sp2\<rparr>)))"

text \<open>\<open>self.average_spectrum() if self.enable_averaging else self.spec.get_raw_spectrum()\<close>.\<close>

definition capture :: "'f arith \<Rightarrow> ('f pl_experiment, 'f list \<times> 'f ndarray) proc" where
  "capture fp e = (if exp_enable_averaging e then average_spectrum fp e else raw_spectrum e)"

text \<open>
  The background frame: a stack of \<open>avg_count\<close> scans when averaging is enabled, of one
  scan otherwise, and its mean.
\<close>

definition background_frame :: "'f arith \<Rightarrow> ('f pl_experiment, 'f ndarray) proc" where
  "background_frame fp e =
     (let (bg, sp1) = capture_stack (if exp_enable_averaging e then nat (exp_avg_count e) else 1) (exp_spec e);
          e1 = e\<lparr>exp_spec := sp1\<rparr>
      in case nd_mean_axis0 fp bg of
           Inl err \<Rightarrow> (Inl err, e1)
         | Inr background \<Rightarrow> (Inr background, e1))"

text \<open>
  Before the loop of \<open>run_degradation_study\<close>: with background correction on and
  \<open>repeated_bg\<close> off, the wheel goes to the mirror and the background is captured once.
  The result is the local variable \<open>background\<close>, \<open>None\<close> while it has never been
  assigned.
\<close>

definition initial_background :: "'f arith \<Rightarrow> ('f pl_experiment, 'f ndarray option) proc" where
  "initial_background fp e =
     (if get_or False (cfg_background_correction (exp_user_cfg e))
         \<and> \<not> get_or True (cfg_repeated_bg (exp_user_cfg e))
      then and_then (slot_of ''mirror'') (\<lambda>s.
           and_then (on_fw (go_to_slot s)) (\<lambda>_.
           and_then (background_frame fp) (\<lambda>b. returns (Some b)))) e
      else returns None e)"

text \<open>
  One cycle of the loop, first part: the optical path chosen by \<open>flywheel_mode\<close> and
  \<open>normalization\<close>. It yields the reference \<open>power\<close> (written \<open>ref_power\<close> where it is a
  parameter) and the local variable \<open>background\<close>.
\<close>

definition select_path :: "'f arith \<Rightarrow> string \<Rightarrow> string \<Rightarrow> bool \<Rightarrow> bool \<Rightarrow> 'f ndarray option
    \<Rightarrow> ('f pl_experiment, 'f \<times> 'f ndarray option) proc" where
  "select_path fp normalization flywheel_mode bc rb background =
     (if flywheel_mode \<noteq> ''skip'' then
        if normalization = ''mirror'' then
          and_then (slot_of ''mirror'') (\<lambda>s.
          and_then (on_fw (go_to_slot s)) (\<lambda>_.
          and_then read_power (\<lambda>power.
          and_then (if bc \<and> rb then and_then (background_frame fp) (\<lambda>b. returns (Some b))
                    else returns background) (\<lambda>background'.
          and_then (slot_of ''empty'') (\<lambda>s'.
          and_then (on_fw (go_to_slot s')) (\<lambda>_.
          returns (power, background')))))))
        else if normalization = ''beam_splitter'' then
          and_then (slot_of ''beam_splitter'') (\<lambda>s.
          and_then (on_fw (go_to_slot s)) (\<lambda>_.
          and_then read_power (\<lambda>power.
          returns (power, background))))
        else
          and_then (slot_of ''empty'') (\<lambda>s.
          and_then (on_fw (go_to_slot s)) (\<lambda>_.
          returns (of_count fp 1, background)))
      else returns (of_count fp 1, background))"

text \<open>\<open>if normalization != "none" and power > 0: inten = inten / power\<close>.\<close>

definition apply_normalization :: "'f arith \<Rightarrow> string \<Rightarrow> 'f \<Rightarrow> 'f ndarray \<Rightarrow> 'f ndarray" where
  "apply_normalization fp normalization ref_power inten =
     (if normalization \<noteq> ''none'' \<and> fless fp (of_count fp 0) ref_power
      then nd_div fp inten ref_power else inten)"

text \<open>
  \<open>if background_correction: inten = inten - background; inten = np.clip(inten, 0, None)\<close>.
  Reading the local \<open>background\<close> before any assignment raises \<open>UnboundLocalError\<close>.
\<close>

definition correct_background :: "'f arith \<Rightarrow> bool \<Rightarrow> 'f ndarray option \<Rightarrow> 'f ndarray
    \<Rightarrow> error + 'f ndarray" where
  "correct_background fp bc background inten =
     (if bc then (case background of
                    None \<Rightarrow> Inl NameError
                  | Some b \<Rightarrow> (case nd_sub fp inten b of
                                Inl e \<Rightarrow> Inl e
                              | Inr d \<Rightarrow> Inr (nd_clip fp d)))
      else Inr inten)"

text \<open>
  The update of the live plot. \<open>wl[np.argmax(inten)]\<close> raises \<open>IndexError\<close> for an index
  outside \<open>wl\<close>; \<open>ax.set_xlim(wl.min(), wl.max())\<close> and \<open>ax.set_ylim(0, peak_val * 1.2)\<close>
  raise \<open>ValueError\<close> for a limit that is NaN or infinite. Drawing the canvas and
  writing the image are taken to succeed.
\<close>

definition live_plot :: "'f arith \<Rightarrow> 'f list \<Rightarrow> 'f ndarray \<Rightarrow> error + unit" where
  "live_plot fp wl inten =
     (case nd_argmax fp inten of
        Inl e \<Rightarrow> Inl e
      | Inr i \<Rightarrow>
          if \<not> i < length wl then Inl IndexError
          else (case nd_max fp inten of
                  Inl e \<Rightarrow> Inl e
                | Inr peak_val \<Rightarrow>
                    (case nd_min fp (Vec wl) of
                       Inl e \<Rightarrow> Inl e
                     | Inr lo \<Rightarrow>
                         (case nd_max fp (Vec wl) of
                            Inl e \<Rightarrow> Inl e
                          | Inr hi \<Rightarrow>
                              if \<not> (isfinite fp lo \<and> isfinite fp hi) then Inl ValueError
                              else if \<not> isfinite fp (times_1_2 fp peak_val) then Inl ValueError
                              else Inr ()))))"

text \<open>
  \<open>save_csv_spectrum\<close>: \<open>np.column_stack\<close> raises \<open>ValueError\<close> unless the two columns
  have the same length (a zero-dimensional value counts as a column of length one); then
  the file is written.
\<close>

definition save_csv_spectrum :: "'f list \<Rightarrow> 'f ndarray \<Rightarrow> ('f pl_experiment, unit) proc" where
  "save_csv_spectrum wavelengths intensities e =
     (let column = (case intensities of Scalar y \<Rightarrow> [y] | Vec ys \<Rightarrow> ys)
      in if length wavelengths = length column
         then (Inr (), e\<lparr>saved_csv := saved_csv e @ [(wavelengths, column)]\<rparr>)
         else (Inl ValueError, e))"

text \<open>
  The second part of the cycle: normalize, correct the background, plot, save.
\<close>

definition process_and_save :: "'f arith \<Rightarrow> string \<Rightarrow> bool \<Rightarrow> 'f \<Rightarrow> 'f ndarray option \<Rightarrow> 'f list
    \<Rightarrow> 'f ndarray \<Rightarrow> ('f pl_experiment, unit) proc" where
  "process_and_save fp normalization bc ref_power background wl inten =
     (case correct_background fp bc background (apply_normalization fp normalization ref_power inten) of
        Inl err \<Rightarrow> raises err
      | Inr inten' \<Rightarrow>
          (case live_plot fp wl inten' of
             Inl err \<Rightarrow> raises err
           | Inr _ \<Rightarrow> save_csv_spectrum wl inten'))"

text \<open>\<open>time.sleep(seconds)\<close> raises \<open>ValueError\<close> for a negative length.\<close>

definition sleep :: "real \<Rightarrow> ('s, unit) proc" where
  "sleep seconds = (if seconds < 0 then raises ValueError else returns ())"

text \<open>One cycle: the path, the capture, the processing, and \<open>time.sleep(interval)\<close>.\<close>

definition degradation_cycle :: "'f arith \<Rightarrow> string \<Rightarrow> string \<Rightarrow> real \<Rightarrow> 'f ndarray option
    \<Rightarrow> ('f pl_experiment, 'f ndarray option) proc" where
  "degradation_cycle fp normalization flywheel_mode interval background e =
     (let bc = get_or False (cfg_background_correction (exp_user_cfg e));
          rb = get_or True (cfg_repeated_bg (exp_user_cfg e))
      in and_then (select_path fp normalization flywheel_mode bc rb background) (\<lambda>(power, background').
         and_then (capture fp) (\<lambda>(wl, inten).
         and_then (process_and_save fp normalization bc power background' wl inten) (\<lambda>_.
         and_then (sleep interval) (\<lambda>_.
         returns background')))) e)"

text \<open>
  The \<open>while (time.time() - t0) < duration\<close> loop. The clock is outside the program: the
  loop takes the number of times the clock lets its condition hold, and stops earlier
  only when a cycle raises.
\<close>

fun degradation_loop :: "'f arith \<Rightarrow> nat \<Rightarrow> string \<Rightarrow> string \<Rightarrow> real \<Rightarrow> 'f ndarray option
    \<Rightarrow> ('f pl_experiment, unit) proc" where
  "degradation_loop fp 0 normalization flywheel_mode interval background e = (Inr (), e)"
| "degradation_loop fp (Suc k) normalization flywheel_mode interval background e =
     (case degradation_cycle fp normalization flywheel_mode interval background e of
        (Inl err, e') \<Rightarrow> (Inl err, e')
      | (Inr background', e') \<Rightarrow>
          degradation_loop fp k normalization flywheel_mode interval background' e')"

text \<open>
  \<open>run_degradation_study\<close>: the four required keys, the background captured before the
  loop, the loop. Setting up the figure before the loop is taken to succeed; the summary
  plots after the loop are wrapped in \<open>try/except Exception\<close> and change nothing the model
  keeps.
\<close>

definition run_degradation_study :: "'f arith \<Rightarrow> nat \<Rightarrow> ('f pl_experiment, unit) proc" where
  "run_degradation_study fp cycles e =
     (let cfg = exp_user_cfg e in
      case cfg_degradation_duration_s cfg of None \<Rightarrow> (Inl KeyError, e) | Some duration \<Rightarrow>
      case cfg_sampling_interval_s cfg of None \<Rightarrow> (Inl KeyError, e) | Some interval \<Rightarrow>
      case cfg_normalization cfg of None \<Rightarrow> (Inl KeyError, e) | Some normalization \<Rightarrow>
      case cfg_flywheel_mode cfg of None \<Rightarrow> (Inl KeyError, e) | Some flywheel_mode \<Rightarrow>
        and_then (initial_background fp)
          (degradation_loop fp cycles normalization flywheel_mode interval) e)"

text \<open>
  For comparison only, the two corrections in the other order (background first, then
  normalization). The program never does this.
\<close>

definition background_then_normalize :: "'f arith \<Rightarrow> string \<Rightarrow> 'f \<Rightarrow> 'f ndarray \<Rightarrow> 'f ndarray
    \<Rightarrow> error + 'f ndarray" where
  "background_then_normalize fp normalization ref_power background inten =
     (case correct_background fp True (Some background) inten of
        Inl e \<Rightarrow> Inl e
      | Inr inten' \<Rightarrow> Inr (apply_normalization fp normalization ref_power inten'))"

section \<open>main.py and the life of the hardware sessions\<close>

text \<open>
  What the program does to the hardware sessions and which mode it runs, in order.
\<close>

datatype event =
    SpectrometerOpened | PowerMeterOpened | FlywheelOpened
  | AutoConfigured
  | ModeRun string
  | SpectrometerShutdown | PowerMeterClosed | FlywheelClosed

text \<open>
  How the instruments answer in one run of the program: the \<open>simulate\<close> flag of the
  spectrometer, the status codes of \<open>tlccs_init\<close> and \<open>PM100D_init\<close>, whether opening the
  VISA session of the function generator raises, what auto-configuration and the
  experiment mode end with (\<open>None\<close>: they return), and whether each shutdown hook raises.
\<close>

record rig =
  simulate :: bool
  spec_init_status :: int
  pm_init_status :: int
  fw_open_raises :: bool
  auto_configure_end :: "error option"
  mode_end :: "error option"
  spec_shutdown_raises :: bool
  pm_close_raises :: bool
  fw_close_raises :: bool

definition ended :: "error option \<Rightarrow> error + unit" where
  "ended r = (case r of None \<Rightarrow> Inr () | Some e \<Rightarrow> Inl e)"

text \<open>
  \<open>PLExperiment.__init__\<close>: the three instruments are created one after the other
  (the simulated spectrometer opens no session), then the integration time is read from
  the configuration, then auto-configuration runs unless it is switched off.
\<close>

definition CCS_Spectrometer_init :: "rig \<Rightarrow> (event list, unit) proc" where
  "CCS_Spectrometer_init r trace =
     (if simulate r then (Inr (), trace)
      else if spec_init_status r \<noteq> 0 then (Inl RuntimeError, trace)
      else (Inr (), trace @ [SpectrometerOpened]))"

definition PM100D_init :: "rig \<Rightarrow> (event list, unit) proc" where
  "PM100D_init r trace =
     (if pm_init_status r \<noteq> 0 then (Inl RuntimeError, trace)
      else (Inr (), trace @ [PowerMeterOpened]))"

definition FlywheelController_init :: "rig \<Rightarrow> (event list, unit) proc" where
  "FlywheelController_init r trace =
     (if fw_open_raises r then (Inl HardwareError, trace)
      else (Inr (), trace @ [FlywheelOpened]))"

definition PLExperiment_init :: "rig \<Rightarrow> config \<Rightarrow> (event list, unit) proc" where
  "PLExperiment_init r cfg =
     and_then (CCS_Spectrometer_init r) (\<lambda>_.
     and_then (PM100D_init r) (\<lambda>_.
     and_then (FlywheelController_init r) (\<lambda>_.
     and_then (\<lambda>trace. case cfg_integration_time_ms cfg of
                       None \<Rightarrow> (Inl KeyError, trace)
                     | Some ms \<Rightarrow> (Inr (), trace)) (\<lambda>_.
     (\<lambda>trace. if get_or True (cfg_auto_configure_flywheel cfg)
            then (ended (auto_configure_end r), trace @ [AutoConfigured])
            else (Inr (), trace))))))"

text \<open>
  \<open>PLExperiment.shutdown\<close>: the three hooks in sequence, with no \<open>try\<close> around any of
  them. The simulated spectrometer's hook only prints.
\<close>

definition shutdown :: "rig \<Rightarrow> (event list, unit) proc" where
  "shutdown r =
     and_then (\<lambda>trace. (if spec_shutdown_raises r \<and> \<not> simulate r then Inl HardwareError else Inr (),
                      trace @ [SpectrometerShutdown])) (\<lambda>_.
     and_then (\<lambda>trace. (if pm_close_raises r then Inl HardwareError else Inr (),
                      trace @ [PowerMeterClosed])) (\<lambda>_.
     (\<lambda>trace. (if fw_close_raises r then Inl HardwareError else Inr (),
             trace @ [FlywheelClosed]))))"

definition run_mode :: "rig \<Rightarrow> string \<Rightarrow> (event list, unit) proc" where
  "run_mode r name trace = (ended (mode_end r), trace @ [ModeRun name])"

text \<open>
  \<open>main\<close>: the experiment is built before the \<open>try\<close>; the dispatch on the experiment
  type is inside it; \<open>finally\<close> runs \<open>shutdown\<close>, and an exception raised there replaces
  the one in flight.
\<close>

definition main :: "rig \<Rightarrow> config \<Rightarrow> (event list, unit) proc" where
  "main r cfg trace =
     (let experiment_type = get_or ''degradation'' (cfg_experiment_type cfg)
      in case PLExperiment_init r cfg trace of
           (Inl e, trace1) \<Rightarrow> (Inl e, trace1)
         | (Inr _, trace1) \<Rightarrow>
             (let (body, trace2) =
                    (if experiment_type = ''steady_state'' then run_mode r ''steady_state'' trace1
                     else if experiment_type = ''degradation'' then run_mode r ''degradation'' trace1
                     else if experiment_type = ''pre_tuning'' then run_mode r ''pre_tuning'' trace1
                     else (Inl ValueError, trace1))
              in case shutdown r trace2 of
                   (Inl e, trace3) \<Rightarrow> (Inl e, trace3)
                 | (Inr _, trace3) \<Rightarrow> (body, trace3)))"

text \<open>The sessions a trace shows as opened, and the shutdown hooks it shows as attempted.\<close>

definition opens_session :: "event list \<Rightarrow> bool" where
  "opens_session trace =
     (SpectrometerOpened \<in> set trace \<or> PowerMeterOpened \<in> set trace \<or> FlywheelOpened \<in> set trace)"

definition hooks_attempted :: "event list \<Rightarrow> event list" where
  "hooks_attempted trace =
     filter (\<lambda>ev. ev = SpectrometerShutdown \<or> ev = PowerMeterClosed \<or> ev = FlywheelClosed) trace"

section \<open>Concrete instruments and configurations\<close>

text \<open>
  The inputs at which the theorems below are evaluated. \<open>real_arith\<close> is exact arithmetic
  on the real numbers; on the small numbers used here the machine's doubles compute the
  same values. \<open>example_cfg\<close> is a configuration for a degradation run with background
  correction on and \<open>repeated_bg\<close> left at its default of true; \<open>normalizing_cfg\<close> is one
  without the key \<open>background_correction\<close>, normalized by the beam splitter. \<open>bench\<close> is an experiment
  as \<open>__init__\<close> leaves it: a six-slot wheel tracked at slot 1 with the given slot names,
  a power meter that always gives the same reading, no averaging, and a spectrometer of
  two pixels at 500 nm and 600 nm that delivers the given scans. \<open>lab_slots\<close> names the
  three slots the study asks for. In \<open>dark_then_sample\<close> the first scan is a flat frame
  and every later scan has a line in its first pixel. \<open>healthy_rig\<close> is a rig on which
  every driver call succeeds.
\<close>

definition real_arith :: "real arith" where
  "real_arith = \<lparr>fadd = (+), fsub = (-), fdiv = (/), fless = (<), of_count = real,
     sum_start = 0, times_1_2 = (\<lambda>x. x * (6 / 5)), isnan = (\<lambda>x. False), isfinite = (\<lambda>x. True)\<rparr>"

definition example_cfg :: config where
  "example_cfg = \<lparr>cfg_experiment_type = Some ''degradation'',
     cfg_background_correction = Some True, cfg_repeated_bg = None,
     cfg_normalization = Some ''none'', cfg_flywheel_mode = Some ''skip'',
     cfg_degradation_duration_s = Some 2, cfg_sampling_interval_s = Some 1,
     cfg_integration_time_ms = Some 100, cfg_auto_configure_flywheel = None\<rparr>"

definition normalizing_cfg :: config where
  "normalizing_cfg = example_cfg\<lparr>cfg_background_correction := None,
     cfg_normalization := Some ''beam_splitter'', cfg_flywheel_mode := Some ''rotate''\<rparr>"

definition lab_slots :: "(string \<times> int) list" where
  "lab_slots = [(''mirror'', 1), (''beam_splitter'', 2), (''empty'', 3)]"

definition bench :: "(string \<times> int) list \<Rightarrow> config \<Rightarrow> (nat \<Rightarrow> nat \<Rightarrow> real) \<Rightarrow> real
    \<Rightarrow> real pl_experiment" where
  "bench slots cfg scan reading =
     \<lparr>exp_user_cfg = cfg,
      exp_spec = \<lparr>num_pixels = 2, wavelength_axis = (\<lambda>i. 500 + 100 * real i), scan_data = scan,
                  scans = 0, sp_background = None, mask_range = (None, None)\<rparr>,
      exp_pm = \<lparr>readings = (\<lambda>k. reading), reads = 0\<rparr>,
      exp_fw = flywheel_init 6 slots,
      exp_slots = slots,
      exp_avg_count = 1, exp_enable_averaging = False, saved_csv = []\<rparr>"

definition dark_then_sample :: "nat \<Rightarrow> nat \<Rightarrow> real" where
  "dark_then_sample k i = (if k = 0 then 1 else if i = 0 then 4 else 1)"

definition healthy_rig :: rig where
  "healthy_rig = \<lparr>simulate = False, spec_init_status = 0, pm_init_status = 0,
     fw_open_raises = False, auto_configure_end = None, mode_end = None,
     spec_shutdown_raises = False, pm_close_raises = False, fw_close_raises = False\<rparr>"

section \<open>The tracker: properties\<close>

lemma pulse_once_fields:
  "slot_count (pulse_once fw) = slot_count fw"
  "slot_mapping (pulse_once fw) = slot_mapping fw"
  "pulses (pulse_once fw) = Suc (pulses fw)"
  "current_slot (pulse_once fw) = (if current_slot fw + 1 > slot_count fw then 1 else current_slot fw + 1)"
  by (simp_all add: pulse_once_def Let_def)

lemma pulse_stuck_fields:
  "slot_count (pulse_stuck fw) = slot_count fw"
  "slot_mapping (pulse_stuck fw) = slot_mapping fw"
  "pulses (pulse_stuck fw) = Suc (pulses fw)"
  "current_slot (pulse_stuck fw) = current_slot fw"
  by (simp_all add: pulse_stuck_def)

lemma go_loop_stop:
  "current_slot fw = t \<or> \<not> a < m \<Longrightarrow> go_loop p t m a fw = (fw, a)"
  by (subst go_loop.simps) auto

lemma go_loop_step:
  "current_slot fw \<noteq> t \<Longrightarrow> a < m \<Longrightarrow> go_loop p t m a fw = go_loop p t m (a + 1) (p fw)"
  by (subst go_loop.simps) simp

lemma pulses_needed_zero:
  "1 \<le> c \<Longrightarrow> 1 \<le> t \<Longrightarrow> t \<le> n \<Longrightarrow> (pulses_needed n c t \<le> 0) = (c = t)"
  by (auto simp: pulses_needed_def)

lemma pulses_needed_bound:
  "1 \<le> c \<Longrightarrow> 1 \<le> t \<Longrightarrow> t \<le> n \<Longrightarrow> 0 \<le> pulses_needed n c t \<and> pulses_needed n c t \<le> n"
  by (auto simp: pulses_needed_def)

lemma pulses_needed_step:
  "1 \<le> c \<Longrightarrow> 1 \<le> t \<Longrightarrow> t \<le> n \<Longrightarrow> c \<noteq> t \<Longrightarrow>
   pulses_needed n (if c + 1 > n then 1 else c + 1) t = pulses_needed n c t - 1"
  by (auto simp: pulses_needed_def)

lemma go_loop_reach:
  "nat (pulses_needed (slot_count fw) (current_slot fw) t) = k \<Longrightarrow> 1 \<le> current_slot fw \<Longrightarrow>
   1 \<le> t \<Longrightarrow> t \<le> slot_count fw \<Longrightarrow> a + int k \<le> m \<Longrightarrow>
   (case go_loop pulse_once t m a fw of (fw', a') \<Rightarrow>
      a' = a + int k \<and> current_slot fw' = t \<and> slot_count fw' = slot_count fw \<and>
      slot_mapping fw' = slot_mapping fw \<and> pulses fw' = pulses fw + k)"
proof (induction k arbitrary: fw a)
  case 0
  then have "current_slot fw = t"
    using pulses_needed_zero [of "current_slot fw" t "slot_count fw"] by simp
  then show ?case by (simp add: go_loop_stop)
next
  case (Suc k)
  have ne: "current_slot fw \<noteq> t"
    using Suc.prems pulses_needed_zero [of "current_slot fw" t "slot_count fw"] by auto
  have lt: "a < m" using Suc.prems by simp
  let ?fw = "pulse_once fw"
  have d: "nat (pulses_needed (slot_count ?fw) (current_slot ?fw) t) = k"
    using Suc.prems ne pulses_needed_step [of "current_slot fw" t "slot_count fw"]
    by (simp add: pulse_once_fields)
  have c1: "1 \<le> current_slot ?fw" using Suc.prems by (simp add: pulse_once_fields)
  have "case go_loop pulse_once t m (a + 1) ?fw of (fw', a') \<Rightarrow>
      a' = (a + 1) + int k \<and> current_slot fw' = t \<and> slot_count fw' = slot_count ?fw \<and>
      slot_mapping fw' = slot_mapping ?fw \<and> pulses fw' = pulses ?fw + k"
    using Suc.prems by (intro Suc.IH [OF d c1]) (simp_all add: pulse_once_fields)
  then show ?case
    by (simp add: go_loop_step [OF ne lt] pulse_once_fields split: prod.splits)
qed

lemma go_loop_stuck:
  "nat (m - a) = k \<Longrightarrow> current_slot fw \<noteq> t \<Longrightarrow>
   go_loop pulse_stuck t m a fw = (fw\<lparr>pulses := pulses fw + k\<rparr>, max a m)"
proof (induction k arbitrary: fw a)
  case 0
  then show ?case by (simp add: go_loop_stop)
next
  case (Suc k)
  have lt: "a < m" using Suc.prems by simp
  have eq: "(pulse_stuck fw)\<lparr>pulses := pulses (pulse_stuck fw) + k\<rparr> = fw\<lparr>pulses := pulses fw + Suc k\<rparr>"
    by (simp add: pulse_stuck_def)
  have "go_loop pulse_stuck t m (a + 1) (pulse_stuck fw)
        = ((pulse_stuck fw)\<lparr>pulses := pulses (pulse_stuck fw) + k\<rparr>, max (a + 1) m)"
    using Suc.prems by (intro Suc.IH) (simp_all add: pulse_stuck_fields)
  then show ?case using lt Suc.prems
    by (simp add: go_loop_step eq)
qed

lemma go_to_slot_moves:
  assumes "1 \<le> s" "s \<le> slot_count fw" "1 \<le> current_slot fw"
  shows "\<exists>fw'. go_to_slot s fw = (Inr s, fw') \<and> current_slot fw' = s \<and>
           slot_count fw' = slot_count fw \<and> slot_mapping fw' = slot_mapping fw \<and>
           pulses fw' = pulses fw + nat (pulses_needed (slot_count fw) (current_slot fw) s)"
proof (cases "current_slot fw = s")
  case True
  then show ?thesis using assms
    by (simp add: go_to_slot_def go_to_slot_with_def pulses_needed_def)
next
  case False
  define k where "k = nat (pulses_needed (slot_count fw) (current_slot fw) s)"
  have b: "0 + int k \<le> slot_count fw"
    using pulses_needed_bound [of "current_slot fw" s "slot_count fw"] assms by (simp add: k_def)
  have "case go_loop pulse_once s (slot_count fw) 0 fw of (fw', a') \<Rightarrow>
      a' = 0 + int k \<and> current_slot fw' = s \<and> slot_count fw' = slot_count fw \<and>
      slot_mapping fw' = slot_mapping fw \<and> pulses fw' = pulses fw + k"
    using assms b by (intro go_loop_reach) (simp_all add: k_def)
  then show ?thesis using False assms
    by (auto simp: go_to_slot_def go_to_slot_with_def Let_def k_def split: prod.splits)
qed

text \<open>
  The tracked position starts at 1 and no method takes it below 1.
\<close>

lemma tracked_position_init: "current_slot (flywheel_init n m) = 1"
  by (simp add: flywheel_init_def)

lemma tracked_position_pulse: "1 \<le> current_slot fw \<Longrightarrow> 1 \<le> current_slot (pulse_once fw)"
  by (simp add: pulse_once_fields)

lemma tracked_position_reset: "1 \<le> current_slot fw \<Longrightarrow> 1 \<le> current_slot (snd (reset_slot k fw))"
  by (simp add: reset_slot_def)

lemma tracked_position_go:
  assumes "1 \<le> current_slot fw"
  shows "1 \<le> current_slot (snd (go_to_slot s fw))"
proof (cases "1 \<le> s \<and> s \<le> slot_count fw")
  case True
  then obtain fw' where "go_to_slot s fw = (Inr s, fw')" "current_slot fw' = s"
    using go_to_slot_moves [of s fw] assms by blast
  then show ?thesis using True by simp
next
  case False
  then show ?thesis using assms by (auto simp: go_to_slot_def go_to_slot_with_def)
qed

text \<open>
  Claim C1, as the code has it. On a wheel whose tracked position is at least 1, for every
  target slot \<open>s\<close> with \<open>1 \<le> s \<le> slot_count\<close>, \<open>go_to_slot s\<close> returns \<open>s\<close> with the tracked
  position equal to \<open>s\<close> after at most \<open>slot_count\<close> pulses, so its \<open>RuntimeError\<close> branch is
  not taken (the loop is a total function: it always ends). With a tracker whose pulses
  leave the tracked position alone, the call raises \<open>RuntimeError\<close> after exactly
  \<open>slot_count\<close> pulses when the wheel is not already tracked at \<open>s\<close>; when it is, the call
  returns \<open>s\<close> at once and no pulse is attempted.
\<close>

theorem go_to_slot_tracker:
  assumes "1 \<le> s" and "s \<le> slot_count fw" and "1 \<le> current_slot fw"
  shows "(\<exists>fw'. go_to_slot s fw = (Inr s, fw') \<and> current_slot fw' = s \<and>
            pulses fw' \<le> pulses fw + nat (slot_count fw)) \<and>
         go_to_slot_with pulse_stuck s fw =
           (if current_slot fw = s then (Inr s, fw)
            else (Inl RuntimeError, fw\<lparr>pulses := pulses fw + nat (slot_count fw)\<rparr>))"
proof
  obtain fw' where g: "go_to_slot s fw = (Inr s, fw')" "current_slot fw' = s"
      "pulses fw' = pulses fw + nat (pulses_needed (slot_count fw) (current_slot fw) s)"
    using go_to_slot_moves [OF assms] by blast
  have "nat (pulses_needed (slot_count fw) (current_slot fw) s) \<le> nat (slot_count fw)"
    using pulses_needed_bound [of "current_slot fw" s "slot_count fw"] assms
    by (auto intro: nat_mono)
  with g show "\<exists>fw'. go_to_slot s fw = (Inr s, fw') \<and> current_slot fw' = s \<and>
            pulses fw' \<le> pulses fw + nat (slot_count fw)" by auto
next
  show "go_to_slot_with pulse_stuck s fw =
           (if current_slot fw = s then (Inr s, fw)
            else (Inl RuntimeError, fw\<lparr>pulses := pulses fw + nat (slot_count fw)\<rparr>))"
  proof (cases "current_slot fw = s")
    case True
    then show ?thesis using assms by (simp add: go_to_slot_with_def)
  next
    case False
    have "go_loop pulse_stuck s (slot_count fw) 0 fw
          = (fw\<lparr>pulses := pulses fw + nat (slot_count fw)\<rparr>, max 0 (slot_count fw))"
      using False by (intro go_loop_stuck) simp_all
    then show ?thesis using False assms by (simp add: go_to_slot_with_def)
  qed
qed

theorem go_to_slot_tracker_witness:
  "(\<exists>fw'. go_to_slot 4 (flywheel_init 6 []) = (Inr 4, fw') \<and> current_slot fw' = 4 \<and>
            pulses fw' \<le> 6) \<and>
   go_to_slot_with pulse_stuck 4 (flywheel_init 6 []) =
     (Inl RuntimeError, \<lparr>slot_count = 6, slot_mapping = [], current_slot = 1, pulses = 6\<rparr>)"
  using go_to_slot_tracker [of 4 "flywheel_init 6 []"] by (simp add: flywheel_init_def)

text \<open>
  Claim C1 as stated asks the broken-tracker call to raise for every valid target. On a
  new six-slot wheel (tracked at slot 1) with target 1 it returns 1 and raises nothing.
\<close>

theorem broken_tracker_at_target_counterexample:
  "go_to_slot_with pulse_stuck 1 (flywheel_init 6 []) = (Inr 1, flywheel_init 6 []) \<and>
   fst (go_to_slot_with pulse_stuck 1 (flywheel_init 6 [])) \<noteq> Inl RuntimeError"
  by (simp add: go_to_slot_with_def flywheel_init_def)

text \<open>
  Claim C2. For every valid target slot \<open>s\<close>, if the tracked position is \<open>s\<close> then
  \<open>go_to_slot s\<close> returns the tracked position and leaves the wheel as it was: no pulse
  is issued and the tracked position is unchanged.
\<close>

theorem go_to_slot_idempotent:
  assumes "1 \<le> s" and "s \<le> slot_count fw" and "current_slot fw = s"
  shows "go_to_slot s fw = (Inr (current_slot fw), fw) \<and>
         pulses (snd (go_to_slot s fw)) = pulses fw \<and>
         current_slot (snd (go_to_slot s fw)) = current_slot fw"
  using assms by (simp add: go_to_slot_def go_to_slot_with_def)

theorem go_to_slot_idempotent_witness:
  "go_to_slot 1 (flywheel_init 6 []) = (Inr 1, flywheel_init 6 []) \<and>
   pulses (snd (go_to_slot 1 (flywheel_init 6 []))) = 0"
  using go_to_slot_idempotent [of 1 "flywheel_init 6 []"] by (simp add: flywheel_init_def)

section \<open>Mirror-slot discovery: properties\<close>

lemma pulse_iter:
  "1 \<le> slot_count fw \<Longrightarrow> current_slot fw = 1 \<Longrightarrow> i \<le> nat (slot_count fw) \<Longrightarrow>
   current_slot ((pulse_once ^^ i) fw) = (if i = nat (slot_count fw) then 1 else int i + 1) \<and>
   slot_count ((pulse_once ^^ i) fw) = slot_count fw \<and>
   slot_mapping ((pulse_once ^^ i) fw) = slot_mapping fw \<and>
   pulses ((pulse_once ^^ i) fw) = pulses fw + i"
proof (induction i)
  case 0
  then show ?case by auto
next
  case (Suc i)
  then show ?case by (auto simp: pulse_once_fields)
qed

lemma scan_slots_eq:
  "scan_slots k ms fw pm =
     (ms @ map (\<lambda>i. (current_slot ((pulse_once ^^ i) fw), readings pm (reads pm + i))) [0..<k],
      (pulse_once ^^ k) fw, pm\<lparr>reads := reads pm + k\<rparr>)"
proof (induction k arbitrary: ms fw pm)
  case 0
  then show ?case by simp
next
  case (Suc k)
  show ?case
    by (simp add: Suc.IH get_power_def get_current_slot_def funpow_swap1 map_upt_Suc
        del: upt_Suc)
qed

lemma py_max_from_first:
  "\<exists>j<Suc (length xs). py_max_from key b xs = (b # xs) ! j \<and>
      (\<forall>i<Suc (length xs). key ((b # xs) ! i) \<le> key ((b # xs) ! j)) \<and>
      (\<forall>i<j. key ((b # xs) ! i) < key ((b # xs) ! j))"
proof (induction xs arbitrary: b)
  case Nil
  then show ?case by simp
next
  case (Cons x xs)
  let ?b = "if key x > key b then x else b"
  obtain j where j: "j < Suc (length xs)" "py_max_from key ?b xs = (?b # xs) ! j"
      "\<forall>i<Suc (length xs). key ((?b # xs) ! i) \<le> key ((?b # xs) ! j)"
      "\<forall>i<j. key ((?b # xs) ! i) < key ((?b # xs) ! j)"
    using Cons.IH [of ?b] by blast
  have b0: "key ?b \<le> key ((?b # xs) ! j)" using j(3) by (metis nth_Cons_0 zero_less_Suc)
  show ?case
  proof (cases "j = 0 \<and> \<not> key x > key b")
    case True
    have "\<forall>i<Suc (length (x # xs)). key ((b # x # xs) ! i) \<le> key b"
    proof (intro allI impI)
      fix i assume i: "i < Suc (length (x # xs))"
      show "key ((b # x # xs) ! i) \<le> key b"
      proof (cases i)
        case 0 then show ?thesis by simp
      next
        case (Suc i')
        show ?thesis
        proof (cases i')
          case 0 with Suc True show ?thesis by simp
        next
          case (Suc i'')
          with \<open>i = Suc i'\<close> i have "Suc i'' < Suc (length xs)" by simp
          with j(3) True have "key ((b # xs) ! Suc i'') \<le> key b" by (metis nth_Cons_0)
          with Suc \<open>i = Suc i'\<close> show ?thesis by simp
        qed
      qed
    qed
    with True j(2) show ?thesis by (intro exI [of _ 0]) simp
  next
    case False
    have res: "py_max_from key b (x # xs) = (b # x # xs) ! Suc j"
      using False j(2) by (cases j) auto
    have val: "key ((b # x # xs) ! Suc j) = key ((?b # xs) ! j)"
      using False by (cases j) auto
    have strict0: "key b < key ((?b # xs) ! j)"
    proof (cases "key x > key b")
      case True with b0 show ?thesis by simp
    next
      case F: False
      with False have "0 < j" by simp
      with j(4) F show ?thesis by (metis nth_Cons_0)
    qed
    have le_all: "\<forall>i<Suc (length (x # xs)). key ((b # x # xs) ! i) \<le> key ((?b # xs) ! j)"
    proof (intro allI impI)
      fix i assume i: "i < Suc (length (x # xs))"
      show "key ((b # x # xs) ! i) \<le> key ((?b # xs) ! j)"
      proof (cases i)
        case 0 with strict0 show ?thesis by simp
      next
        case (Suc i')
        show ?thesis
        proof (cases i')
          case 0
          have "key x \<le> key ?b" by simp
          with b0 Suc 0 show ?thesis by simp
        next
          case (Suc i'')
          with \<open>i = Suc i'\<close> i have "Suc i'' < Suc (length xs)" by simp
          with j(3) have "key ((?b # xs) ! Suc i'') \<le> key ((?b # xs) ! j)" by blast
          with Suc \<open>i = Suc i'\<close> show ?thesis by simp
        qed
      qed
    qed
    have lt_all: "\<forall>i<Suc j. key ((b # x # xs) ! i) < key ((?b # xs) ! j)"
    proof (intro allI impI)
      fix i assume i: "i < Suc j"
      show "key ((b # x # xs) ! i) < key ((?b # xs) ! j)"
      proof (cases i)
        case 0 with strict0 show ?thesis by simp
      next
        case (Suc i')
        with i have i'j: "i' < j" by simp
        with j(4) have s: "key ((?b # xs) ! i') < key ((?b # xs) ! j)" by blast
        show ?thesis
        proof (cases i')
          case 0
          have "key x \<le> key ?b" by simp
          with s 0 \<open>i = Suc i'\<close> show ?thesis by simp
        next
          case (Suc i'')
          with s \<open>i = Suc i'\<close> show ?thesis by simp
        qed
      qed
    qed
    from j(1) res val le_all lt_all show ?thesis
      by (intro exI [of _ "Suc j"]) simp
  qed
qed

lemma py_max_first:
  assumes "xs \<noteq> []"
  shows "\<exists>j<length xs. py_max key xs = Inr (xs ! j) \<and>
      (\<forall>i<length xs. key (xs ! i) \<le> key (xs ! j)) \<and>
      (\<forall>i<j. key (xs ! i) < key (xs ! j))"
proof -
  obtain b rest where xs: "xs = b # rest" using assms by (cases xs) auto
  show ?thesis
    using py_max_from_first [of rest key b] by (simp add: xs py_max_def)
qed

text \<open>
  Claim C3. On a wheel of \<open>slot_count \<ge> 1\<close> slots tracked at slot 1, auto-configuration
  records the pairs \<open>(1, r 0), (2, r 1), \<dots>, (slot_count, r (slot_count - 1))\<close>, where \<open>r i\<close> is
  the \<open>i\<close>-th reading it takes, pulsing once after each reading, and the tracked position
  is back at 1 after the scan. It then returns with the tracked position 1 and the wheel
  \<open>slot_count + j\<close> pulses further than at the start, where \<open>j\<close> is the first index of the
  greatest reading: one full turn plus \<open>j\<close> slots, so the wheel stands physically where
  the greatest power was read.
\<close>

theorem configure_aligns_mirror:
  assumes "1 \<le> slot_count fw" and "current_slot fw = 1"
  shows "\<exists>j fw' pm'. j < nat (slot_count fw) \<and>
     (\<forall>i<nat (slot_count fw). readings pm (reads pm + i) \<le> readings pm (reads pm + j)) \<and>
     (\<forall>i<j. readings pm (reads pm + i) < readings pm (reads pm + j)) \<and>
     fst (scan_slots (nat (slot_count fw)) [] fw pm)
       = map (\<lambda>i. (int i + 1, readings pm (reads pm + i))) [0..<nat (slot_count fw)] \<and>
     current_slot (fst (snd (scan_slots (nat (slot_count fw)) [] fw pm))) = 1 \<and>
     configure_flywheel_with_powermeter (fw, pm) = (Inr (), (fw', pm')) \<and>
     current_slot fw' = 1 \<and>
     pulses fw' = pulses fw + nat (slot_count fw) + j \<and>
     physical_offset fw' = physical_offset ((pulse_once ^^ j) fw)"
proof -
  define N where "N = nat (slot_count fw)"
  define r where "r = (\<lambda>i. readings pm (reads pm + i))"
  define ms where "ms = map (\<lambda>i. (int i + 1, r i)) [0..<N]"
  define fw1 where "fw1 = (pulse_once ^^ N) fw"
  define pm1 where "pm1 = pm\<lparr>reads := reads pm + N\<rparr>"
  have N: "0 < N" "int N = slot_count fw" using assms by (simp_all add: N_def)
  have slots: "map (\<lambda>i. (current_slot ((pulse_once ^^ i) fw), r i)) [0..<N] = ms"
    unfolding ms_def using pulse_iter [OF assms] by (intro map_cong) (auto simp: N_def)
  have scan: "scan_slots N [] fw pm = (ms, fw1, pm1)"
    by (simp add: scan_slots_eq slots [unfolded r_def] fw1_def pm1_def)
  have fw1: "current_slot fw1 = 1" "slot_count fw1 = slot_count fw" "pulses fw1 = pulses fw + N"
    using pulse_iter [OF assms, of N] by (simp_all add: fw1_def N_def)
  have "ms \<noteq> []" using N by (simp add: ms_def)
  then obtain j where j: "j < length ms" "py_max snd ms = Inr (ms ! j)"
      "\<forall>i<length ms. snd (ms ! i) \<le> snd (ms ! j)" "\<forall>i<j. snd (ms ! i) < snd (ms ! j)"
    using py_max_first [of ms snd] by blast
  have jN: "j < N" using j(1) by (simp add: ms_def)
  have msj: "ms ! j = (int j + 1, r j)" using jN by (simp add: ms_def)
  have le: "\<forall>i<N. r i \<le> r j" using j(3) jN by (simp add: ms_def)
  have lt: "\<forall>i<j. r i < r j" using j(4) jN by (simp add: ms_def)
  obtain fw2 where fw2: "go_to_slot (int j + 1) fw1 = (Inr (int j + 1), fw2)"
      "current_slot fw2 = int j + 1" "slot_count fw2 = slot_count fw1"
      "pulses fw2 = pulses fw1 + nat (pulses_needed (slot_count fw1) (current_slot fw1) (int j + 1))"
    using go_to_slot_moves [of "int j + 1" fw1] jN N fw1 by auto
  have p2: "pulses fw2 = pulses fw + N + j"
    using fw2(4) fw1 by (simp add: pulses_needed_def)
  define fw3 where "fw3 = fw2\<lparr>current_slot := 1\<rparr>"
  have reset: "reset_slot 1 fw2 = (Inr (), fw3)"
    using assms fw2(3) fw1(2) by (simp add: reset_slot_def fw3_def)
  have conf: "configure_flywheel_with_powermeter (fw, pm) = (Inr (), (fw3, pm1))"
    using scan j(2) msj fw2(1) reset
    by (simp add: configure_flywheel_with_powermeter_def flip: N_def)
  have turn: "(pulses fw + N + j) mod N = (pulses fw + j) mod N"
    by (metis add.assoc add.commute mod_add_self1)
  have off: "physical_offset fw3 = physical_offset ((pulse_once ^^ j) fw)"
    using pulse_iter [OF assms, of j] jN p2 fw2(3) fw1(2) turn
    by (simp add: physical_offset_def fw3_def N_def)
  show ?thesis
    using jN le lt scan fw1(1) conf p2 off unfolding N_def r_def ms_def fw3_def
    by (intro exI [of _ j] exI [of _ "fw2\<lparr>current_slot := 1\<rparr>"] exI [of _ pm1]) simp
qed

theorem configure_aligns_mirror_witness:
  "\<exists>fw' pm'.
     configure_flywheel_with_powermeter
       (flywheel_init 6 [], \<lparr>readings = (\<lambda>k. [2, 9, 4, 9, 1, 3] ! k), reads = 0\<rparr>)
       = (Inr (), (fw', pm')) \<and>
     current_slot fw' = 1 \<and> pulses fw' = 7"
proof -
  let ?fw = "flywheel_init 6 []"
  let ?pm = "\<lparr>readings = (\<lambda>k. [2, 9, 4, 9, 1, 3 :: real] ! k), reads = 0\<rparr>"
  obtain j fw' pm' where h: "j < 6" 
      "\<forall>i<6. [2, 9, 4, 9, 1, 3 :: real] ! i \<le> [2, 9, 4, 9, 1, 3] ! j"
      "\<forall>i<j. [2, 9, 4, 9, 1, 3 :: real] ! i < [2, 9, 4, 9, 1, 3] ! j"
      "configure_flywheel_with_powermeter (?fw, ?pm) = (Inr (), (fw', pm'))"
      "current_slot fw' = 1" "pulses fw' = 6 + j"
    using configure_aligns_mirror [of ?fw ?pm] by (auto simp: flywheel_init_def)
  have "[2, 9, 4, 9, 1, 3 :: real] ! 1 \<le> [2, 9, 4, 9, 1, 3] ! j"
    using h(2) [rule_format, of 1] by simp
  with h(1) have "j = 1 \<or> j = 3"
    by (cases j rule: nat.exhaust) (auto simp: nth_Cons split: nat.splits)
  moreover have "j \<noteq> 3" using h(3) by (auto simp: nth_Cons split: nat.splits)
  ultimately have "j = 1" by simp
  with h show ?thesis by auto
qed

section \<open>Background correction in the spectrometer: properties\<close>








section \<open>Averaging: properties\<close>

lemma get_raw_spectrum_shape:
  "get_raw_spectrum sp = ((wl, inten), sp') \<Longrightarrow>
     length wl = num_pixels sp \<and> length inten = num_pixels sp \<and>
     sp' = sp\<lparr>scans := Suc (scans sp)\<rparr>"
  by (auto simp: get_raw_spectrum_def)

lemma capture_stack_shape:
  "capture_stack k sp = (rows, sp') \<Longrightarrow>
     length rows = k \<and> (\<forall>r\<in>set rows. length r = num_pixels sp) \<and> sp' = sp\<lparr>scans := scans sp + k\<rparr>"
proof (induction k arbitrary: sp rows sp')
  case 0
  then show ?case by simp
next
  case (Suc k)
  obtain wl inten sp1 where g: "get_raw_spectrum sp = ((wl, inten), sp1)"
    by (metis prod.exhaust)
  obtain rest sp2 where r: "capture_stack k sp1 = (rest, sp2)" by (cases "capture_stack k sp1")
  have rows: "rows = inten # rest" "sp' = sp2" using Suc.prems g r by simp_all
  note s1 = get_raw_spectrum_shape [OF g]
  note s2 = Suc.IH [OF r]
  show ?case using s1 s2 rows by simp
qed

lemma nd_mean_axis0_uniform:
  "\<forall>r\<in>set rows. length r = n \<Longrightarrow> \<exists>a. nd_mean_axis0 fp rows = Inr a"
  by (cases rows) (auto simp: nd_mean_axis0_def list_all_iff)




section \<open>The unassigned background: properties\<close>

lemma capture_succeeds:
  "\<exists>wl inten e'. capture fp e = (Inr (wl, inten), e') \<and> saved_csv e' = saved_csv e"
proof (cases "exp_enable_averaging e")
  case False
  then show ?thesis by (simp add: capture_def raw_spectrum_def get_raw_spectrum_def)
next
  case True
  obtain rows sp1 where c: "capture_stack (nat (exp_avg_count e)) (exp_spec e) = (rows, sp1)"
    by (cases "capture_stack (nat (exp_avg_count e)) (exp_spec e)")
  have "\<forall>r\<in>set rows. length r = num_pixels (exp_spec e)"
    using capture_stack_shape [OF c] by simp
  then obtain a where "nd_mean_axis0 fp rows = Inr a"
    using nd_mean_axis0_uniform by blast
  then show ?thesis using True c
    by (simp add: capture_def average_spectrum_def get_raw_spectrum_def)
qed

lemma process_and_save_unbound:
  "process_and_save fp normalization True p None wl inten e = (Inl NameError, e)"
  by (simp add: process_and_save_def correct_background_def raises_def)

lemma capture_then_unbound:
  "\<exists>e'. and_then (capture fp) (\<lambda>(wl, inten).
           and_then (process_and_save fp normalization True p None wl inten) (\<lambda>_.
           and_then (sleep interval) (\<lambda>_. returns None))) e1
         = (Inl NameError, e') \<and> saved_csv e' = saved_csv e1"
proof -
  obtain wl inten e2 where c: "capture fp e1 = (Inr (wl, inten), e2)" "saved_csv e2 = saved_csv e1"
    using capture_succeeds by blast
  show ?thesis using c by (simp add: and_then_def process_and_save_unbound)
qed

lemma rotate_to_slot:
  assumes "1 \<le> current_slot (exp_fw e)"
  shows "\<exists>e1. saved_csv e1 = saved_csv e \<and>
           and_then (slot_of name) (\<lambda>s. and_then (on_fw (go_to_slot s)) f) e =
             (case map_of (exp_slots e) name of
                None \<Rightarrow> (Inl KeyError, e)
              | Some s \<Rightarrow> if 1 \<le> s \<and> s \<le> slot_count (exp_fw e) then f s e1
                          else (Inl ValueError, e))"
proof (cases "map_of (exp_slots e) name")
  case None
  then show ?thesis by (intro exI [of _ e]) (simp add: and_then_def slot_of_def)
next
  case (Some s)
  show ?thesis
  proof (cases "1 \<le> s \<and> s \<le> slot_count (exp_fw e)")
    case False
    then show ?thesis using Some
      by (intro exI [of _ e])
        (auto simp: and_then_def slot_of_def on_fw_def go_to_slot_def go_to_slot_with_def)
  next
    case True
    then obtain fw' where g: "go_to_slot s (exp_fw e) = (Inr s, fw')"
      using go_to_slot_moves [of s "exp_fw e"] assms by blast
    show ?thesis using Some True g
      by (intro exI [of _ "e\<lparr>exp_fw := fw'\<rparr>"]) (simp add: and_then_def slot_of_def on_fw_def)
  qed
qed

text \<open>
  Claim C10, as the code has it. In \<open>run_degradation_study\<close> with \<open>background_correction\<close>
  true and \<open>repeated_bg\<close> true (or absent, its default), when the cycle does not take the
  mirror branch (\<open>flywheel_mode\<close> is \<open>"skip"\<close> or \<open>normalization\<close> is not \<open>"mirror"\<close>), a run
  whose clock allows at least one cycle ends in an exception during its first cycle and
  writes no spectrum. With \<open>flywheel_mode = "skip"\<close> the exception is the \<open>NameError\<close> of
  the never-assigned local \<open>background\<close>. Otherwise the cycle first turns the wheel, to
  the slot named \<open>"beam_splitter"\<close> if that is the normalization and to the slot named
  \<open>"empty"\<close> if not: it raises \<open>KeyError\<close> when \<open>slot_mapping\<close> does not have the name,
  \<open>ValueError\<close> when the slot is outside \<open>1..slot_count\<close>, and the \<open>NameError\<close> only
  when the wheel has reached the slot. The tracked position is at least 1, as it is on
  every wheel the program creates.
\<close>

theorem degradation_unbound_background:
  assumes bc: "cfg_background_correction (exp_user_cfg e) = Some True"
    and rb: "cfg_repeated_bg (exp_user_cfg e) \<noteq> Some False"
    and keys: "cfg_degradation_duration_s (exp_user_cfg e) = Some duration"
      "cfg_sampling_interval_s (exp_user_cfg e) = Some interval"
      "cfg_normalization (exp_user_cfg e) = Some normalization"
      "cfg_flywheel_mode (exp_user_cfg e) = Some flywheel_mode"
    and no_mirror: "flywheel_mode = ''skip'' \<or> normalization \<noteq> ''mirror''"
    and tracked: "1 \<le> current_slot (exp_fw e)"
  shows "\<exists>e'. run_degradation_study fp (Suc n) e =
           (Inl (if flywheel_mode = ''skip'' then NameError
                 else case map_of (exp_slots e)
                        (if normalization = ''beam_splitter'' then ''beam_splitter'' else ''empty'') of
                        None \<Rightarrow> KeyError
                      | Some s \<Rightarrow> if 1 \<le> s \<and> s \<le> slot_count (exp_fw e) then NameError
                                  else ValueError), e') \<and>
           saved_csv e' = saved_csv e"
proof -
  let ?K = "\<lambda>(power, background').
         and_then (capture fp) (\<lambda>(wl, inten).
         and_then (process_and_save fp normalization True power background' wl inten) (\<lambda>_.
         and_then (sleep interval) (\<lambda>_.
         returns background')))"
  let ?name = "if normalization = ''beam_splitter'' then ''beam_splitter'' else ''empty''"
  let ?E = "if flywheel_mode = ''skip'' then NameError
            else case map_of (exp_slots e) ?name of
                   None \<Rightarrow> KeyError
                 | Some s \<Rightarrow> if 1 \<le> s \<and> s \<le> slot_count (exp_fw e) then NameError else ValueError"
  have rb': "get_or True (cfg_repeated_bg (exp_user_cfg e)) = True"
    using rb by (cases "cfg_repeated_bg (exp_user_cfg e)") (auto simp: get_or_def)
  have cycle_eq: "degradation_cycle fp normalization flywheel_mode interval None e =
      and_then (select_path fp normalization flywheel_mode True True None) ?K e"
    using bc rb' by (simp add: degradation_cycle_def get_or_def)
  have tail: "\<exists>e'. ?K (P, None) e1 = (Inl NameError, e') \<and> saved_csv e' = saved_csv e"
    if "saved_csv e1 = saved_csv e" for P e1
    using capture_then_unbound [of fp normalization P interval e1] that by simp
  have cyc: "\<exists>e'. degradation_cycle fp normalization flywheel_mode interval None e = (Inl ?E, e') \<and>
      saved_csv e' = saved_csv e"
  proof (cases "flywheel_mode = ''skip''")
    case True
    have "select_path fp normalization flywheel_mode True True None e = (Inr (of_count fp 1, None), e)"
      using True by (simp add: select_path_def returns_def)
    then show ?thesis using tail [of e "of_count fp 1"] True cycle_eq
      by (simp add: and_then_def)
  next
    case False
    then have nm: "normalization \<noteq> ''mirror''" using no_mirror by simp
    let ?f = "\<lambda>s::int. if normalization = ''beam_splitter''
                then and_then read_power (\<lambda>power. returns (power, None :: 'a ndarray option))
                else returns (of_count fp 1, None)"
    have sel: "select_path fp normalization flywheel_mode True True None =
        and_then (slot_of ?name) (\<lambda>s. and_then (on_fw (go_to_slot s)) ?f)"
      using False nm by (simp add: select_path_def)
    obtain e1 where e1: "saved_csv e1 = saved_csv e"
        "and_then (slot_of ?name) (\<lambda>s. and_then (on_fw (go_to_slot s)) ?f) e =
           (case map_of (exp_slots e) ?name of
              None \<Rightarrow> (Inl KeyError, e)
            | Some s \<Rightarrow> if 1 \<le> s \<and> s \<le> slot_count (exp_fw e) then ?f s e1
                        else (Inl ValueError, e))"
      using rotate_to_slot [OF tracked, of ?name ?f] by blast
    show ?thesis
    proof (cases "map_of (exp_slots e) ?name")
      case None
      have "select_path fp normalization flywheel_mode True True None e = (Inl KeyError, e)"
        unfolding sel e1(2) using None by simp
      then show ?thesis using cycle_eq False None by (simp add: and_then_def)
    next
      case (Some s)
      show ?thesis
      proof (cases "1 \<le> s \<and> s \<le> slot_count (exp_fw e)")
        case out: False
        have "select_path fp normalization flywheel_mode True True None e = (Inl ValueError, e)"
          unfolding sel e1(2) using Some out by auto
        then show ?thesis using cycle_eq False Some out by (auto simp: and_then_def)
      next
        case inside: True
        obtain P e2 where f: "?f s e1 = (Inr (P, None), e2)" "saved_csv e2 = saved_csv e"
          using e1(1)
          by (cases "normalization = ''beam_splitter''")
            (simp_all add: and_then_def read_power_def get_power_def returns_def)
        obtain e' where t: "?K (P, None) e2 = (Inl NameError, e')" "saved_csv e' = saved_csv e"
          using tail [OF f(2)] by blast
        have "select_path fp normalization flywheel_mode True True None e = (Inr (P, None), e2)"
          unfolding sel e1(2) using Some inside f(1) by simp
        then have "degradation_cycle fp normalization flywheel_mode interval None e = (Inl NameError, e')"
          using cycle_eq t(1) by (simp add: and_then_def)
        then show ?thesis using t(2) False Some inside by simp
      qed
    qed
  qed
  then obtain e' where c: "degradation_cycle fp normalization flywheel_mode interval None e = (Inl ?E, e')"
      "saved_csv e' = saved_csv e" by blast
  have "initial_background fp e = (Inr None, e)"
    using bc rb' by (simp add: initial_background_def returns_def)
  then have "run_degradation_study fp (Suc n) e = (Inl ?E, e')"
    using keys c(1) by (simp add: run_degradation_study_def and_then_def)
  then show ?thesis using c(2) by blast
qed

theorem degradation_unbound_background_witness:
  "fst (run_degradation_study real_arith 2
          (bench lab_slots (example_cfg\<lparr>cfg_normalization := Some ''beam_splitter'',
                                         cfg_flywheel_mode := Some ''rotate''\<rparr>) dark_then_sample 2))
     = Inl NameError \<and>
   saved_csv (snd (run_degradation_study real_arith 2
          (bench lab_slots (example_cfg\<lparr>cfg_normalization := Some ''beam_splitter'',
                                         cfg_flywheel_mode := Some ''rotate''\<rparr>) dark_then_sample 2)))
     = []"
proof -
  let ?e = "bench lab_slots (example_cfg\<lparr>cfg_normalization := Some ''beam_splitter'',
                                         cfg_flywheel_mode := Some ''rotate''\<rparr>) dark_then_sample 2"
  obtain e' where h: "run_degradation_study real_arith (Suc 1) ?e = (Inl NameError, e')"
      "saved_csv e' = saved_csv ?e"
    using degradation_unbound_background [of ?e 2 1 "''beam_splitter''" "''rotate''" real_arith 1]
    by (auto simp: bench_def example_cfg_def lab_slots_def flywheel_init_def)
  from h show ?thesis by (simp add: bench_def numeral_2_eq_2)
qed

theorem missing_slot_counterexample:
  "fst (run_degradation_study real_arith 1
          (bench [] (example_cfg\<lparr>cfg_normalization := Some ''beam_splitter'',
                                  cfg_flywheel_mode := Some ''rotate''\<rparr>) dark_then_sample 2))
     = Inl KeyError"
  by (simp add: run_degradation_study_def initial_background_def degradation_cycle_def
      select_path_def slot_of_def and_then_def returns_def get_or_def bench_def example_cfg_def)

section \<open>The degradation cycle: properties\<close>

lemma nd_mean_axis0_length:
  "nd_mean_axis0 fp rows = Inr (Vec v) \<Longrightarrow> \<forall>r\<in>set rows. length r = n \<Longrightarrow> length v = n"
  by (cases rows) (auto simp: nd_mean_axis0_def split: if_splits)

lemma capture_shape:
  assumes "capture fp e1 = (Inr (wl, Vec inten), e2)"
  shows "length wl = length inten"
proof (cases "exp_enable_averaging e1")
  case False
  then show ?thesis using assms
    by (auto simp: capture_def raw_spectrum_def get_raw_spectrum_def)
next
  case True
  obtain rows sp1 where c: "capture_stack (nat (exp_avg_count e1)) (exp_spec e1) = (rows, sp1)"
    by (cases "capture_stack (nat (exp_avg_count e1)) (exp_spec e1)")
  note sh = capture_stack_shape [OF c]
  have m: "nd_mean_axis0 fp rows = Inr (Vec inten)" and w: "length wl = num_pixels sp1"
    using assms True c
    by (auto simp: capture_def average_spectrum_def get_raw_spectrum_def Let_def split: sum.splits)
  have "length inten = num_pixels (exp_spec e1)"
    using nd_mean_axis0_length [OF m] sh by blast
  then show ?thesis using w sh by simp
qed

lemma apply_normalization_Vec:
  "normalization \<noteq> ''none'' \<Longrightarrow>
   apply_normalization fp normalization P (Vec inten) =
     Vec (if fless fp (of_count fp 0) P then map (\<lambda>x. fdiv fp x P) inten else inten)"
  by (simp add: apply_normalization_def nd_div_def)

lemma correct_background_Vec:
  "length bg = length xs \<Longrightarrow>
   correct_background fp True (Some (Vec bg)) (Vec xs) =
     Inr (Vec (map2 (\<lambda>x b. clip_at_zero fp (fsub fp x b)) xs bg))"
  by (auto simp: correct_background_def nd_sub_def nd_clip_def)

lemma degradation_cycle_steps:
  assumes "select_path fp normalization flywheel_mode
             (get_or False (cfg_background_correction (exp_user_cfg e)))
             (get_or True (cfg_repeated_bg (exp_user_cfg e))) background e = (Inr (P, background'), e1)"
    and "capture fp e1 = (Inr (wl, inten), e2)"
  shows "degradation_cycle fp normalization flywheel_mode interval background e =
           (case process_and_save fp normalization
                   (get_or False (cfg_background_correction (exp_user_cfg e))) P background' wl inten e2 of
              (Inl err, e3) \<Rightarrow> (Inl err, e3)
            | (Inr u, e3) \<Rightarrow> (if interval < 0 then Inl ValueError else Inr background', e3))"
  using assms
  by (simp add: degradation_cycle_def and_then_def returns_def raises_def sleep_def
      split: prod.splits sum.splits)

lemma run_one_cycle:
  assumes "cfg_degradation_duration_s (exp_user_cfg e0) = Some duration"
    and "cfg_sampling_interval_s (exp_user_cfg e0) = Some interval"
    and "cfg_normalization (exp_user_cfg e0) = Some normalization"
    and "cfg_flywheel_mode (exp_user_cfg e0) = Some flywheel_mode"
    and "initial_background fp e0 = (Inr background, e)"
  shows "run_degradation_study fp 1 e0 =
           (case degradation_cycle fp normalization flywheel_mode interval background e of
              (Inl err, e') \<Rightarrow> (Inl err, e')
            | (Inr b, e') \<Rightarrow> (Inr (), e'))"
  using assms
  by (simp add: run_degradation_study_def and_then_def split: prod.splits sum.splits)

lemma process_and_save_corrected:
  assumes "normalization \<noteq> ''none''" and "length bg = length inten" and "length wl = length inten"
  shows "process_and_save fp normalization True P (Some (Vec bg)) wl (Vec inten) e =
           (case live_plot fp wl (Vec (map2 (\<lambda>x b. clip_at_zero fp
                     (fsub fp (if fless fp (of_count fp 0) P then fdiv fp x P else x) b)) inten bg)) of
              Inl err \<Rightarrow> (Inl err, e)
            | Inr u \<Rightarrow> (Inr (), e\<lparr>saved_csv := saved_csv e @
                [(wl, map2 (\<lambda>x b. clip_at_zero fp
                     (fsub fp (if fless fp (of_count fp 0) P then fdiv fp x P else x) b)) inten bg)]\<rparr>))"
proof -
  let ?n = "if fless fp (of_count fp 0) P then map (\<lambda>x. fdiv fp x P) inten else inten"
  let ?out = "map2 (\<lambda>x b. clip_at_zero fp
                (fsub fp (if fless fp (of_count fp 0) P then fdiv fp x P else x) b)) inten bg"
  have "correct_background fp True (Some (Vec bg)) (Vec ?n)
      = Inr (Vec (map2 (\<lambda>x b. clip_at_zero fp (fsub fp x b)) ?n bg))"
    using assms(2) by (intro correct_background_Vec) simp
  also have "map2 (\<lambda>x b. clip_at_zero fp (fsub fp x b)) ?n bg = ?out"
    by (simp add: zip_map1 case_prod_beta)
  finally have c: "correct_background fp True (Some (Vec bg))
      (apply_normalization fp normalization P (Vec inten)) = Inr (Vec ?out)"
    using assms(1) by (simp add: apply_normalization_Vec)
  have l: "length wl = length ?out" using assms(2,3) by simp
  show ?thesis
    unfolding process_and_save_def c
    using l by (simp add: save_csv_spectrum_def raises_def split: sum.splits)
qed

text \<open>
  Claim C4, as the code has it. In a degradation cycle with normalization enabled and
  background correction enabled, once the optical path has been chosen (reference power
  \<open>P\<close>, background \<open>bg\<close>) and the spectrum \<open>(wl, inten)\<close> captured, the cycle computes,
  element by element, the captured intensity normalized first (divided by \<open>P\<close> when
  \<open>0 < P\<close>, unchanged otherwise), then the background subtracted from it, then the
  difference clipped at zero. If Matplotlib accepts the plot of that array, the array is
  what the cycle writes to disk; if not (a peak that is infinite or NaN), the cycle
  raises and writes nothing. After writing, \<open>time.sleep(interval)\<close> raises if the
  interval is negative. The same holds of a run of one cycle. The order is never the
  opposite one, which gives another result: for the intensity 4, the background 1 and
  the power 2 the program computes 1, the opposite order would give 3/2.
\<close>

theorem degradation_normalizes_then_subtracts:
  assumes "normalization \<noteq> ''none''"
    and "cfg_background_correction (exp_user_cfg e) = Some True"
    and "select_path fp normalization flywheel_mode True
           (get_or True (cfg_repeated_bg (exp_user_cfg e))) background e = (Inr (P, Some (Vec bg)), e1)"
    and "capture fp e1 = (Inr (wl, Vec inten), e2)"
    and "length bg = length inten"
  shows "(let out = map2 (\<lambda>x b. clip_at_zero fp
                      (fsub fp (if fless fp (of_count fp 0) P then fdiv fp x P else x) b)) inten bg
          in degradation_cycle fp normalization flywheel_mode interval background e =
               (case live_plot fp wl (Vec out) of
                  Inl err \<Rightarrow> (Inl err, e2)
                | Inr u \<Rightarrow> (if interval < 0 then Inl ValueError else Inr (Some (Vec bg)),
                            e2\<lparr>saved_csv := saved_csv e2 @ [(wl, out)]\<rparr>)) \<and>
             (cfg_degradation_duration_s (exp_user_cfg e0) = Some duration \<and>
              cfg_sampling_interval_s (exp_user_cfg e0) = Some interval \<and>
              cfg_normalization (exp_user_cfg e0) = Some normalization \<and>
              cfg_flywheel_mode (exp_user_cfg e0) = Some flywheel_mode \<and>
              initial_background fp e0 = (Inr background, e) \<longrightarrow>
              run_degradation_study fp 1 e0 =
                (case live_plot fp wl (Vec out) of
                   Inl err \<Rightarrow> (Inl err, e2)
                 | Inr u \<Rightarrow> (if interval < 0 then Inl ValueError else Inr (),
                             e2\<lparr>saved_csv := saved_csv e2 @ [(wl, out)]\<rparr>)))) \<and>
         correct_background real_arith True (Some (Vec [1]))
           (apply_normalization real_arith ''mirror'' 2 (Vec [4])) = Inr (Vec [1]) \<and>
         background_then_normalize real_arith ''mirror'' 2 (Vec [1]) (Vec [4]) = Inr (Vec [3 / 2])"
proof -
  let ?out = "map2 (\<lambda>x b. clip_at_zero fp
                (fsub fp (if fless fp (of_count fp 0) P then fdiv fp x P else x) b)) inten bg"
  have bc: "get_or False (cfg_background_correction (exp_user_cfg e)) = True"
    using assms(2) by (simp add: get_or_def)
  have wl: "length wl = length inten" using assms(4) by (rule capture_shape)
  have cyc: "degradation_cycle fp normalization flywheel_mode interval background e =
      (case live_plot fp wl (Vec ?out) of
         Inl err \<Rightarrow> (Inl err, e2)
       | Inr u \<Rightarrow> (if interval < 0 then Inl ValueError else Inr (Some (Vec bg)),
                   e2\<lparr>saved_csv := saved_csv e2 @ [(wl, ?out)]\<rparr>))"
    using degradation_cycle_steps [where fp = fp and normalization = normalization
        and flywheel_mode = flywheel_mode and e = e and background = background and P = P
        and background' = "Some (Vec bg)" and ?e1.0 = e1 and wl = wl and inten = "Vec inten"
        and ?e2.0 = e2 and interval = interval]
      assms(3,4) bc process_and_save_corrected [OF assms(1,5) wl, of fp P e2]
    by (simp split: sum.splits)
  have run: "run_degradation_study fp 1 e0 =
      (case live_plot fp wl (Vec ?out) of
         Inl err \<Rightarrow> (Inl err, e2)
       | Inr u \<Rightarrow> (if interval < 0 then Inl ValueError else Inr (),
                   e2\<lparr>saved_csv := saved_csv e2 @ [(wl, ?out)]\<rparr>))"
    if "cfg_degradation_duration_s (exp_user_cfg e0) = Some duration"
      "cfg_sampling_interval_s (exp_user_cfg e0) = Some interval"
      "cfg_normalization (exp_user_cfg e0) = Some normalization"
      "cfg_flywheel_mode (exp_user_cfg e0) = Some flywheel_mode"
      "initial_background fp e0 = (Inr background, e)"
    using run_one_cycle [OF that] cyc by (simp split: sum.splits)
  have o1: "correct_background real_arith True (Some (Vec [1]))
      (apply_normalization real_arith ''mirror'' 2 (Vec [4])) = Inr (Vec [1])"
    by (simp add: correct_background_def apply_normalization_def nd_div_def nd_sub_def nd_clip_def
        clip_at_zero_def real_arith_def)
  have o2: "background_then_normalize real_arith ''mirror'' 2 (Vec [1]) (Vec [4]) = Inr (Vec [3 / 2])"
    by (simp add: background_then_normalize_def correct_background_def apply_normalization_def
        nd_div_def nd_sub_def nd_clip_def clip_at_zero_def real_arith_def)
  show ?thesis using cyc run o1 o2 by (simp add: Let_def)
qed

lemma bench_mirror_cycle:
  "\<exists>e1 e2.
     select_path real_arith ''mirror'' ''rotate'' True True None
       (bench lab_slots (example_cfg\<lparr>cfg_normalization := Some ''mirror'',
                                      cfg_flywheel_mode := Some ''rotate''\<rparr>) dark_then_sample reading)
       = (Inr (reading, Some (Vec [1, 1])), e1) \<and>
     capture real_arith e1 = (Inr ([500, 600], Vec [4, 1]), e2) \<and> saved_csv e2 = []"
proof -
  have px: "[0..<2] = [0, 1]" by (simp add: upt_rec)
  show ?thesis
    by (simp add: select_path_def and_then_def returns_def slot_of_def on_fw_def read_power_def
        get_power_def go_to_slot_def go_to_slot_with_def go_loop_step go_loop_stop
        pulse_once_def flywheel_init_def background_frame_def get_raw_spectrum_def
        nd_mean_axis0_def capture_def raw_spectrum_def bench_def example_cfg_def lab_slots_def
        dark_then_sample_def real_arith_def px Let_def)
qed

lemma bench_plot_accepts:
  "live_plot real_arith [500, 600] (Vec [a, b]) = Inr ()"
  by (simp add: live_plot_def nd_argmax_def nd_max_def nd_min_def real_arith_def)

lemma bench_no_initial_background:
  "initial_background fp
     (bench slots (example_cfg\<lparr>cfg_normalization := n, cfg_flywheel_mode := m\<rparr>) scan reading)
   = (Inr None, bench slots (example_cfg\<lparr>cfg_normalization := n, cfg_flywheel_mode := m\<rparr>) scan reading)"
  by (simp add: initial_background_def returns_def get_or_def bench_def example_cfg_def)

lemma bench_keys:
  "cfg_background_correction (exp_user_cfg (bench slots (example_cfg\<lparr>cfg_normalization := n,
      cfg_flywheel_mode := m\<rparr>) scan reading)) = Some True"
  "get_or True (cfg_repeated_bg (exp_user_cfg (bench slots (example_cfg\<lparr>cfg_normalization := n,
      cfg_flywheel_mode := m\<rparr>) scan reading))) = True"
  "cfg_degradation_duration_s (exp_user_cfg (bench slots (example_cfg\<lparr>cfg_normalization := n,
      cfg_flywheel_mode := m\<rparr>) scan reading)) = Some 2"
  "cfg_sampling_interval_s (exp_user_cfg (bench slots (example_cfg\<lparr>cfg_normalization := n,
      cfg_flywheel_mode := m\<rparr>) scan reading)) = Some 1"
  "cfg_normalization (exp_user_cfg (bench slots (example_cfg\<lparr>cfg_normalization := n,
      cfg_flywheel_mode := m\<rparr>) scan reading)) = n"
  "cfg_flywheel_mode (exp_user_cfg (bench slots (example_cfg\<lparr>cfg_normalization := n,
      cfg_flywheel_mode := m\<rparr>) scan reading)) = m"
  by (simp_all add: bench_def example_cfg_def get_or_def)

theorem degradation_normalizes_then_subtracts_witness:
  "fst (run_degradation_study real_arith 1
     (bench lab_slots (example_cfg\<lparr>cfg_normalization := Some ''mirror'',
                                    cfg_flywheel_mode := Some ''rotate''\<rparr>) dark_then_sample 2))
     = Inr () \<and>
   saved_csv (snd (run_degradation_study real_arith 1
     (bench lab_slots (example_cfg\<lparr>cfg_normalization := Some ''mirror'',
                                    cfg_flywheel_mode := Some ''rotate''\<rparr>) dark_then_sample 2)))
     = [([500, 600], [1, 0])]"
proof -
  let ?e = "bench lab_slots (example_cfg\<lparr>cfg_normalization := Some ''mirror'',
                                    cfg_flywheel_mode := Some ''rotate''\<rparr>) dark_then_sample 2"
  obtain e1 e2 where h:
      "select_path real_arith ''mirror'' ''rotate'' True True None ?e = (Inr (2, Some (Vec [1, 1])), e1)"
      "capture real_arith e1 = (Inr ([500, 600], Vec [4, 1]), e2)" "saved_csv e2 = []"
    using bench_mirror_cycle [of 2] by blast
  have out: "map2 (\<lambda>x b. clip_at_zero real_arith
                (fsub real_arith (if fless real_arith (of_count real_arith 0) 2
                   then fdiv real_arith x 2 else x) b)) [4, 1] [1, 1] = [1, 0]"
    by (simp add: clip_at_zero_def real_arith_def)
  note t = degradation_normalizes_then_subtracts [where normalization = "''mirror''" and e = ?e
      and fp = real_arith and flywheel_mode = "''rotate''" and background = None and P = 2
      and bg = "[1, 1]" and ?e1.0 = e1 and wl = "[500, 600]" and inten = "[4, 1]" and ?e2.0 = e2
      and ?e0.0 = ?e and duration = 2 and interval = 1, unfolded bench_keys out Let_def]
  show ?thesis
    using t h by (simp add: bench_plot_accepts bench_no_initial_background)
qed

theorem nonpositive_power_counterexample:
  "saved_csv (snd (run_degradation_study real_arith 1
     (bench lab_slots (example_cfg\<lparr>cfg_normalization := Some ''mirror'',
                                    cfg_flywheel_mode := Some ''rotate''\<rparr>) dark_then_sample (- 1))))
     = [([500, 600], [3, 0])] \<and>
   correct_background real_arith True (Some (Vec [1, 1])) (nd_div real_arith (Vec [4, 1]) (- 1))
     = Inr (Vec [0, 0])"
proof -
  let ?e = "bench lab_slots (example_cfg\<lparr>cfg_normalization := Some ''mirror'',
                                    cfg_flywheel_mode := Some ''rotate''\<rparr>) dark_then_sample (- 1)"
  obtain e1 e2 where h:
      "select_path real_arith ''mirror'' ''rotate'' True True None ?e = (Inr (- 1, Some (Vec [1, 1])), e1)"
      "capture real_arith e1 = (Inr ([500, 600], Vec [4, 1]), e2)" "saved_csv e2 = []"
    using bench_mirror_cycle [of "- 1"] by blast
  have bcv: "get_or False (cfg_background_correction (exp_user_cfg ?e)) = True"
    by (simp add: bench_keys(1) get_or_def)
  have out: "map2 (\<lambda>x b. clip_at_zero real_arith
                (fsub real_arith (if fless real_arith (of_count real_arith 0) (- 1)
                   then fdiv real_arith x (- 1) else x) b)) [4, 1] [1, 1] = [3, 0]"
    by (simp add: clip_at_zero_def real_arith_def)
  have p: "process_and_save real_arith ''mirror'' True (- 1) (Some (Vec [1, 1])) [500, 600] (Vec [4, 1]) e2
      = (Inr (), e2\<lparr>saved_csv := [([500, 600], [3, 0])]\<rparr>)"
    using process_and_save_corrected [of "''mirror''" "[1, 1]" "[4, 1]" "[500, 600]" real_arith "- 1" e2,
        unfolded out] h(3)
    by (simp add: bench_plot_accepts)
  have c: "degradation_cycle real_arith ''mirror'' ''rotate'' 1 None ?e
      = (Inr (Some (Vec [1, 1])), e2\<lparr>saved_csv := [([500, 600], [3, 0])]\<rparr>)"
    using degradation_cycle_steps [where fp = real_arith and normalization = "''mirror''"
        and flywheel_mode = "''rotate''" and e = ?e and background = None and P = "- 1"
        and background' = "Some (Vec [1, 1])" and ?e1.0 = e1 and wl = "[500, 600]"
        and inten = "Vec [4, 1]" and ?e2.0 = e2 and interval = 1,
        unfolded bcv bench_keys(2), OF h(1) h(2)] p
    by simp
  have r: "run_degradation_study real_arith 1 ?e = (Inr (), e2\<lparr>saved_csv := [([500, 600], [3, 0])]\<rparr>)"
    using run_one_cycle [where ?e0.0 = ?e and e = ?e and fp = real_arith and background = None
        and normalization = "''mirror''" and flywheel_mode = "''rotate''" and duration = 2
        and interval = 1, unfolded bench_keys] c
    by (simp add: bench_no_initial_background)
  have d: "correct_background real_arith True (Some (Vec [1, 1])) (nd_div real_arith (Vec [4, 1]) (- 1))
     = Inr (Vec [0, 0])"
    by (simp add: correct_background_def nd_div_def nd_sub_def nd_clip_def clip_at_zero_def real_arith_def)
  show ?thesis using r d by simp
qed

section \<open>Normalization: properties\<close>

text \<open>
  Claim C6. In a degradation cycle with normalization enabled (\<open>normalization\<close> other than
  \<open>"none"\<close>), for every captured intensity array and every reference power \<open>P\<close>, the
  array that goes on to background correction, the plot and the disk is the captured one
  with every element divided by \<open>P\<close> if \<open>0 < P\<close> (one floating-point division for each
  element, as in \<open>inten / power\<close>), and the captured one unchanged if not: nothing is
  divided by a power that is not positive. Without background correction that array is
  what the cycle, and a run of one cycle, writes to disk, unless Matplotlib refuses its
  peak as an axis limit (a quotient that overflowed): then the cycle raises and writes
  nothing. After writing, \<open>time.sleep(interval)\<close> raises if the interval is negative.
\<close>

theorem normalization_divides_by_power:
  assumes "normalization \<noteq> ''none''"
    and "select_path fp normalization flywheel_mode
           (get_or False (cfg_background_correction (exp_user_cfg e)))
           (get_or True (cfg_repeated_bg (exp_user_cfg e))) background e = (Inr (P, background'), e1)"
    and "capture fp e1 = (Inr (wl, Vec inten), e2)"
  shows "(let scaled = (if fless fp (of_count fp 0) P then map (\<lambda>x. fdiv fp x P) inten else inten)
          in degradation_cycle fp normalization flywheel_mode interval background e =
               (case correct_background fp (get_or False (cfg_background_correction (exp_user_cfg e)))
                       background' (Vec scaled) of
                  Inl err \<Rightarrow> (Inl err, e2)
                | Inr out \<Rightarrow>
                    (case live_plot fp wl out of
                       Inl err \<Rightarrow> (Inl err, e2)
                     | Inr u \<Rightarrow>
                         (case save_csv_spectrum wl out e2 of
                            (Inl err, e3) \<Rightarrow> (Inl err, e3)
                          | (Inr u, e3) \<Rightarrow>
                              (if interval < 0 then Inl ValueError else Inr background', e3)))) \<and>
             (get_or False (cfg_background_correction (exp_user_cfg e)) = False \<longrightarrow>
                degradation_cycle fp normalization flywheel_mode interval background e =
                  (case live_plot fp wl (Vec scaled) of
                     Inl err \<Rightarrow> (Inl err, e2)
                   | Inr u \<Rightarrow> (if interval < 0 then Inl ValueError else Inr background',
                               e2\<lparr>saved_csv := saved_csv e2 @ [(wl, scaled)]\<rparr>))) \<and>
             (get_or False (cfg_background_correction (exp_user_cfg e)) = False \<and>
              background = None \<and>
              cfg_degradation_duration_s (exp_user_cfg e) = Some duration \<and>
              cfg_sampling_interval_s (exp_user_cfg e) = Some interval \<and>
              cfg_normalization (exp_user_cfg e) = Some normalization \<and>
              cfg_flywheel_mode (exp_user_cfg e) = Some flywheel_mode \<longrightarrow>
                run_degradation_study fp 1 e =
                  (case live_plot fp wl (Vec scaled) of
                     Inl err \<Rightarrow> (Inl err, e2)
                   | Inr u \<Rightarrow> (if interval < 0 then Inl ValueError else Inr (),
                               e2\<lparr>saved_csv := saved_csv e2 @ [(wl, scaled)]\<rparr>))))"
proof -
  let ?bc = "get_or False (cfg_background_correction (exp_user_cfg e))"
  let ?scaled = "if fless fp (of_count fp 0) P then map (\<lambda>x. fdiv fp x P) inten else inten"
  have wl: "length wl = length inten" using assms(3) by (rule capture_shape)
  then have wl': "length wl = length ?scaled" by simp
  have n: "apply_normalization fp normalization P (Vec inten) = Vec ?scaled"
    using assms(1) by (rule apply_normalization_Vec)
  have steps: "degradation_cycle fp normalization flywheel_mode interval background e =
      (case process_and_save fp normalization ?bc P background' wl (Vec inten) e2 of
         (Inl err, e3) \<Rightarrow> (Inl err, e3)
       | (Inr u, e3) \<Rightarrow> (if interval < 0 then Inl ValueError else Inr background', e3))"
    using assms(2,3) by (rule degradation_cycle_steps)
  have a: "degradation_cycle fp normalization flywheel_mode interval background e =
      (case correct_background fp ?bc background' (Vec ?scaled) of
         Inl err \<Rightarrow> (Inl err, e2)
       | Inr out \<Rightarrow>
           (case live_plot fp wl out of
              Inl err \<Rightarrow> (Inl err, e2)
            | Inr u \<Rightarrow>
                (case save_csv_spectrum wl out e2 of
                   (Inl err, e3) \<Rightarrow> (Inl err, e3)
                 | (Inr u, e3) \<Rightarrow>
                     (if interval < 0 then Inl ValueError else Inr background', e3))))"
    unfolding steps process_and_save_def n
    by (simp add: raises_def split: sum.splits)
  have b: "degradation_cycle fp normalization flywheel_mode interval background e =
      (case live_plot fp wl (Vec ?scaled) of
         Inl err \<Rightarrow> (Inl err, e2)
       | Inr u \<Rightarrow> (if interval < 0 then Inl ValueError else Inr background',
                   e2\<lparr>saved_csv := saved_csv e2 @ [(wl, ?scaled)]\<rparr>))"
    if "?bc = False"
    unfolding a using that wl
    by (simp add: correct_background_def save_csv_spectrum_def split: sum.splits)
  have c: "run_degradation_study fp 1 e =
      (case live_plot fp wl (Vec ?scaled) of
         Inl err \<Rightarrow> (Inl err, e2)
       | Inr u \<Rightarrow> (if interval < 0 then Inl ValueError else Inr (),
                   e2\<lparr>saved_csv := saved_csv e2 @ [(wl, ?scaled)]\<rparr>))"
    if off: "?bc = False" and none: "background = None"
      and keys: "cfg_degradation_duration_s (exp_user_cfg e) = Some duration"
      "cfg_sampling_interval_s (exp_user_cfg e) = Some interval"
      "cfg_normalization (exp_user_cfg e) = Some normalization"
      "cfg_flywheel_mode (exp_user_cfg e) = Some flywheel_mode"
  proof -
    have "initial_background fp e = (Inr background, e)"
      using off none by (simp add: initial_background_def returns_def)
    from run_one_cycle [OF keys this] b [OF off] show ?thesis
      by (simp split: sum.splits)
  qed
  show ?thesis using a b c by (simp add: Let_def)
qed

lemma bench_beam_splitter_cycle:
  "\<exists>e1 e2.
     select_path real_arith ''beam_splitter'' ''rotate'' False True None
       (bench lab_slots normalizing_cfg scan reading) = (Inr (reading, None), e1) \<and>
     capture real_arith e1 = (Inr ([500, 600], Vec [scan 0 0, scan 0 1]), e2) \<and> saved_csv e2 = []"
proof -
  have px: "[0..<2] = [0, 1]" by (simp add: upt_rec)
  show ?thesis
    by (simp add: select_path_def and_then_def returns_def slot_of_def on_fw_def read_power_def
        get_power_def go_to_slot_def go_to_slot_with_def go_loop_step go_loop_stop
        pulse_once_def flywheel_init_def get_raw_spectrum_def
        capture_def raw_spectrum_def bench_def lab_slots_def px Let_def)
qed

lemma normalizing_keys:
  "get_or False (cfg_background_correction (exp_user_cfg (bench slots normalizing_cfg scan reading))) = False"
  "get_or True (cfg_repeated_bg (exp_user_cfg (bench slots normalizing_cfg scan reading))) = True"
  "cfg_degradation_duration_s (exp_user_cfg (bench slots normalizing_cfg scan reading)) = Some 2"
  "cfg_sampling_interval_s (exp_user_cfg (bench slots normalizing_cfg scan reading)) = Some 1"
  "cfg_normalization (exp_user_cfg (bench slots normalizing_cfg scan reading)) = Some ''beam_splitter''"
  "cfg_flywheel_mode (exp_user_cfg (bench slots normalizing_cfg scan reading)) = Some ''rotate''"
  by (simp_all add: bench_def normalizing_cfg_def example_cfg_def get_or_def)

theorem normalization_divides_by_power_witness:
  "saved_csv (snd (run_degradation_study real_arith 1
     (bench lab_slots normalizing_cfg (\<lambda>k i. if i = 0 then 8 else 2) 4)))
     = [([500, 600], [2, 1 / 2])] \<and>
   saved_csv (snd (run_degradation_study real_arith 1
     (bench lab_slots normalizing_cfg (\<lambda>k i. if i = 0 then 8 else 2) (- 3))))
     = [([500, 600], [8, 2])]"
proof -
  let ?scan = "\<lambda>k i :: nat. if i = 0 then 8 else 2 :: real"
  let ?e = "bench lab_slots normalizing_cfg ?scan 4"
  let ?e' = "bench lab_slots normalizing_cfg ?scan (- 3)"
  obtain e1 e2 where h:
      "select_path real_arith ''beam_splitter'' ''rotate'' False True None ?e = (Inr (4, None), e1)"
      "capture real_arith e1 = (Inr ([500, 600], Vec [8, 2]), e2)" "saved_csv e2 = []"
    using bench_beam_splitter_cycle [of ?scan 4] by auto
  obtain e1' e2' where h':
      "select_path real_arith ''beam_splitter'' ''rotate'' False True None ?e' = (Inr (- 3, None), e1')"
      "capture real_arith e1' = (Inr ([500, 600], Vec [8, 2]), e2')" "saved_csv e2' = []"
    using bench_beam_splitter_cycle [of ?scan "- 3"] by auto
  note t = normalization_divides_by_power [where normalization = "''beam_splitter''" and e = ?e
      and fp = real_arith and flywheel_mode = "''rotate''" and background = None and P = 4
      and background' = None and ?e1.0 = e1 and wl = "[500, 600]" and inten = "[8, 2]" and ?e2.0 = e2
      and duration = 2 and interval = 1, unfolded normalizing_keys Let_def]
  note t' = normalization_divides_by_power [where normalization = "''beam_splitter''" and e = ?e'
      and fp = real_arith and flywheel_mode = "''rotate''" and background = None and P = "- 3"
      and background' = None and ?e1.0 = e1' and wl = "[500, 600]" and inten = "[8, 2]" and ?e2.0 = e2'
      and duration = 2 and interval = 1, unfolded normalizing_keys Let_def]
  have s: "(if fless real_arith (of_count real_arith 0) 4 then map (\<lambda>x. fdiv real_arith x 4) [8, 2]
            else [8, 2]) = [2, 1 / 2]"
      "(if fless real_arith (of_count real_arith 0) (- 3) then map (\<lambda>x. fdiv real_arith x (- 3)) [8, 2]
            else [8, 2]) = [8, 2]"
    by (simp_all add: real_arith_def)
  have r: "run_degradation_study real_arith 1 ?e = (Inr (), e2\<lparr>saved_csv := [([500, 600], [2, 1 / 2])]\<rparr>)"
    using t [unfolded s] h by (simp add: bench_plot_accepts)
  have r': "run_degradation_study real_arith 1 ?e' = (Inr (), e2'\<lparr>saved_csv := [([500, 600], [8, 2])]\<rparr>)"
    using t' [unfolded s] h' by (simp add: bench_plot_accepts)
  show ?thesis using r r' by simp
qed

section \<open>Start-up and shutdown: properties\<close>

lemma PLExperiment_init_trace:
  assumes "PLExperiment_init r cfg tr = (Inr (), tr1)"
  shows "tr1 = tr @ (if simulate r then [] else [SpectrometerOpened])
                 @ [PowerMeterOpened, FlywheelOpened]
                 @ (if get_or True (cfg_auto_configure_flywheel cfg) then [AutoConfigured] else [])"
  using assms
  by (auto simp: PLExperiment_init_def and_then_def CCS_Spectrometer_init_def PM100D_init_def
        FlywheelController_init_def split: if_splits option.splits)

lemma PLExperiment_init_error_trace:
  assumes "PLExperiment_init r cfg tr = (Inl e, tr1)"
  shows "\<forall>name. ModeRun name \<notin> set tr1 - set tr"
  using assms
  by (auto simp: PLExperiment_init_def and_then_def CCS_Spectrometer_init_def PM100D_init_def
        FlywheelController_init_def ended_def split: if_splits option.splits)

lemma PLExperiment_init_ValueError:
  assumes "PLExperiment_init r cfg tr = (Inl ValueError, tr1)"
  shows "tr1 = tr @ (if simulate r then [] else [SpectrometerOpened])
                 @ [PowerMeterOpened, FlywheelOpened, AutoConfigured]"
  using assms
  by (auto simp: PLExperiment_init_def and_then_def CCS_Spectrometer_init_def PM100D_init_def
        FlywheelController_init_def ended_def split: if_splits option.splits)

lemma shutdown_trace:
  "shutdown r tr =
     (if spec_shutdown_raises r \<and> \<not> simulate r then (Inl HardwareError, tr @ [SpectrometerShutdown])
      else if pm_close_raises r then (Inl HardwareError, tr @ [SpectrometerShutdown, PowerMeterClosed])
      else if fw_close_raises r
        then (Inl HardwareError, tr @ [SpectrometerShutdown, PowerMeterClosed, FlywheelClosed])
      else (Inr (), tr @ [SpectrometerShutdown, PowerMeterClosed, FlywheelClosed]))"
  by (simp add: shutdown_def and_then_def)

lemma main_unknown:
  assumes "cfg_experiment_type cfg = Some t" and "t \<noteq> ''steady_state''"
    and "t \<noteq> ''degradation''" and "t \<noteq> ''pre_tuning''"
  shows "main r cfg tr =
     (case PLExperiment_init r cfg tr of
        (Inl e, tr1) \<Rightarrow> (Inl e, tr1)
      | (Inr _, tr1) \<Rightarrow>
          (case shutdown r tr1 of
             (Inl e, tr2) \<Rightarrow> (Inl e, tr2)
           | (Inr _, tr2) \<Rightarrow> (Inl ValueError, tr2)))"
  using assms by (simp add: main_def get_or_def split: prod.splits sum.splits)

text \<open>
  Claim C8, as the code has it. When the experiment type is none of \<open>"steady_state"\<close>,
  \<open>"degradation"\<close>, \<open>"pre_tuning"\<close>, no experiment mode is run; a \<open>ValueError\<close> at the end of
  the program comes only after the power-meter and flywheel sessions (and the
  spectrometer session, unless simulated) have been opened; and when the experiment
  object is built and no shutdown hook raises, the program ends with \<open>ValueError\<close> after
  the three shutdown hooks.
\<close>

theorem unknown_type_fails_after_sessions_open:
  assumes "cfg_experiment_type cfg = Some t" and "t \<noteq> ''steady_state''"
    and "t \<noteq> ''degradation''" and "t \<noteq> ''pre_tuning''"
  shows "(\<forall>name. ModeRun name \<notin> set (snd (main r cfg []))) \<and>
         (fst (main r cfg []) = Inl ValueError \<longrightarrow>
            PowerMeterOpened \<in> set (snd (main r cfg [])) \<and>
            FlywheelOpened \<in> set (snd (main r cfg [])) \<and>
            (\<not> simulate r \<longrightarrow> SpectrometerOpened \<in> set (snd (main r cfg [])))) \<and>
         (\<forall>tr1. PLExperiment_init r cfg [] = (Inr (), tr1) \<and> \<not> spec_shutdown_raises r \<and>
                \<not> pm_close_raises r \<and> \<not> fw_close_raises r \<longrightarrow>
            main r cfg [] = (Inl ValueError, tr1 @ [SpectrometerShutdown, PowerMeterClosed, FlywheelClosed]))"
proof -
  note m = main_unknown [OF assms, of r "[]"]
  obtain res tr1 where init: "PLExperiment_init r cfg [] = (res, tr1)"
    by (cases "PLExperiment_init r cfg []")
  show ?thesis
  proof (cases res)
    case (Inl e)
    have no_run: "\<forall>name. ModeRun name \<notin> set tr1"
      using PLExperiment_init_error_trace [of r cfg "[]" e tr1] init Inl by simp
    have "e = ValueError \<longrightarrow> tr1 = (if simulate r then [] else [SpectrometerOpened])
                 @ [PowerMeterOpened, FlywheelOpened, AutoConfigured]"
      using PLExperiment_init_ValueError [of r cfg "[]" tr1] init Inl by simp
    then show ?thesis using m init Inl no_run by auto
  next
    case (Inr u)
    have tr1: "tr1 = (if simulate r then [] else [SpectrometerOpened])
                 @ [PowerMeterOpened, FlywheelOpened]
                 @ (if get_or True (cfg_auto_configure_flywheel cfg) then [AutoConfigured] else [])"
      using PLExperiment_init_trace [of r cfg "[]" tr1] init Inr by simp
    show ?thesis using m init Inr tr1 by (auto simp: shutdown_trace)
  qed
qed

theorem unknown_type_fails_after_sessions_open_witness:
  "main healthy_rig (example_cfg\<lparr>cfg_experiment_type := Some ''calibration''\<rparr>) [] =
     (Inl ValueError,
      [SpectrometerOpened, PowerMeterOpened, FlywheelOpened, AutoConfigured,
       SpectrometerShutdown, PowerMeterClosed, FlywheelClosed])"
proof -
  let ?cfg = "example_cfg\<lparr>cfg_experiment_type := Some ''calibration''\<rparr>"
  have init: "PLExperiment_init healthy_rig ?cfg [] =
      (Inr (), [SpectrometerOpened, PowerMeterOpened, FlywheelOpened, AutoConfigured])"
    by (simp add: PLExperiment_init_def and_then_def CCS_Spectrometer_init_def PM100D_init_def
        FlywheelController_init_def ended_def get_or_def healthy_rig_def example_cfg_def)
  have t: "cfg_experiment_type ?cfg = Some ''calibration''" by simp
  show ?thesis
    using unknown_type_fails_after_sessions_open [OF t, of healthy_rig] init
    by (simp add: healthy_rig_def)
qed

text \<open>
  Claim C8 as stated has the program fail before any hardware session is opened. On a
  healthy rig with the experiment type \<open>"calibration"\<close> it fails with \<open>ValueError\<close> and
  the three sessions have been opened.
\<close>

theorem unknown_type_counterexample:
  "fst (main healthy_rig (example_cfg\<lparr>cfg_experiment_type := Some ''calibration''\<rparr>) [])
     = Inl ValueError \<and>
   opens_session (snd (main healthy_rig (example_cfg\<lparr>cfg_experiment_type := Some ''calibration''\<rparr>) []))"
  by (simp add: main_def PLExperiment_init_def and_then_def CCS_Spectrometer_init_def
      PM100D_init_def FlywheelController_init_def ended_def get_or_def healthy_rig_def
      example_cfg_def shutdown_def opens_session_def)

lemma hooks_attempted_append:
  "hooks_attempted (xs @ ys) = hooks_attempted xs @ hooks_attempted ys"
  by (simp add: hooks_attempted_def)

lemma finally_trace:
  "snd (case shutdown r t of (Inl e, t3) \<Rightarrow> (Inl e, t3) | (Inr u, t3) \<Rightarrow> (body, t3))
     = t @ snd (shutdown r [])"
  by (simp add: shutdown_trace)

lemma main_after_init:
  assumes "PLExperiment_init r cfg tr = (Inr (), tr1)"
  shows "\<exists>ran. snd (main r cfg tr) = tr1 @ ran @ snd (shutdown r []) \<and> hooks_attempted ran = []"
proof -
  let ?t = "get_or ''degradation'' (cfg_experiment_type cfg)"
  let ?ran = "if ?t = ''steady_state'' then [ModeRun ''steady_state'']
          else if ?t = ''degradation'' then [ModeRun ''degradation'']
          else if ?t = ''pre_tuning'' then [ModeRun ''pre_tuning''] else []"
  have "snd (main r cfg tr) = tr1 @ ?ran @ snd (shutdown r [])"
    using assms by (simp add: main_def run_mode_def Let_def finally_trace)
  moreover have "hooks_attempted ?ran = []" by (simp add: hooks_attempted_def)
  ultimately show ?thesis by blast
qed

text \<open>
  Claim C9, as the code has it. Once the experiment object is built, whatever mode runs
  and whatever it ends with, the shutdown block is entered and calls the hooks in the
  order spectrometer, power meter, flywheel. All three are attempted when neither of the
  first two raises; a hook that raises ends the block, and the hooks after it are not
  attempted.
\<close>

theorem shutdown_hooks_in_sequence:
  assumes "PLExperiment_init r cfg [] = (Inr (), tr1)"
  shows "hooks_attempted (snd (main r cfg [])) =
           (if spec_shutdown_raises r \<and> \<not> simulate r then [SpectrometerShutdown]
            else if pm_close_raises r then [SpectrometerShutdown, PowerMeterClosed]
            else [SpectrometerShutdown, PowerMeterClosed, FlywheelClosed])"
proof -
  obtain ran where ran: "snd (main r cfg []) = tr1 @ ran @ snd (shutdown r [])"
      "hooks_attempted ran = []"
    using main_after_init [OF assms] by blast
  have "hooks_attempted tr1 = []"
    using PLExperiment_init_trace [OF assms] by (simp add: hooks_attempted_def)
  then show ?thesis using ran
    by (simp add: hooks_attempted_append shutdown_trace) (simp add: hooks_attempted_def)
qed

theorem shutdown_hooks_in_sequence_witness:
  "hooks_attempted (snd (main (healthy_rig\<lparr>mode_end := Some RuntimeError\<rparr>) example_cfg []))
     = [SpectrometerShutdown, PowerMeterClosed, FlywheelClosed] \<and>
   hooks_attempted (snd (main (healthy_rig\<lparr>pm_close_raises := True\<rparr>) example_cfg []))
     = [SpectrometerShutdown, PowerMeterClosed]"
proof -
  have i1: "PLExperiment_init (healthy_rig\<lparr>mode_end := Some RuntimeError\<rparr>) example_cfg [] =
      (Inr (), [SpectrometerOpened, PowerMeterOpened, FlywheelOpened, AutoConfigured])"
    by (simp add: PLExperiment_init_def and_then_def CCS_Spectrometer_init_def PM100D_init_def
        FlywheelController_init_def ended_def get_or_def healthy_rig_def example_cfg_def)
  have i2: "PLExperiment_init (healthy_rig\<lparr>pm_close_raises := True\<rparr>) example_cfg [] =
      (Inr (), [SpectrometerOpened, PowerMeterOpened, FlywheelOpened, AutoConfigured])"
    by (simp add: PLExperiment_init_def and_then_def CCS_Spectrometer_init_def PM100D_init_def
        FlywheelController_init_def ended_def get_or_def healthy_rig_def example_cfg_def)
  show ?thesis
    using shutdown_hooks_in_sequence [OF i1] shutdown_hooks_in_sequence [OF i2]
    by (simp add: healthy_rig_def)
qed

text \<open>
  Claim C9 as stated has every hook attempted even when one raises. When the
  spectrometer's shutdown raises, the power meter and the flywheel are never closed.
\<close>

theorem shutdown_failure_counterexample:
  "hooks_attempted (snd (main (healthy_rig\<lparr>spec_shutdown_raises := True\<rparr>) example_cfg []))
     = [SpectrometerShutdown] \<and>
   PowerMeterClosed \<notin> set (snd (main (healthy_rig\<lparr>spec_shutdown_raises := True\<rparr>) example_cfg [])) \<and>
   FlywheelClosed \<notin> set (snd (main (healthy_rig\<lparr>spec_shutdown_raises := True\<rparr>) example_cfg []))"
  by (simp add: main_def PLExperiment_init_def and_then_def CCS_Spectrometer_init_def
      PM100D_init_def FlywheelController_init_def ended_def get_or_def healthy_rig_def
      example_cfg_def shutdown_def run_mode_def hooks_attempted_def)

end

